theory Spec2Isabelle
  imports Main
begin

section \<open>Strings and exceptions\<close>

text \<open>
  A Python \<open>str\<close> is a sequence of Unicode code points, so it is modelled as a list of
  natural numbers: the label compared in \<open>get_local_tz\<close> lies outside Latin-1, and
  \<open>strptime\<close> accepts decimal digits of any script. \<open>ustr\<close> embeds an ASCII literal.
\<close>

type_synonym str = "nat list"

definition ustr :: "string \<Rightarrow> str" where
  "ustr cs = map of_char cs"

text \<open>
  The exceptions that reach the caller. \<open>src/main.py\<close> raises \<open>ValueError\<close> for each of its
  own failures and tells them apart by message only; \<open>OverflowError\<close> is what the
  date-time arithmetic of the standard library raises outside the years 1 to 9999.
\<close>

datatype exn = ValueError str | OverflowError str

section \<open>The proleptic Gregorian calendar of the \<open>datetime\<close> module\<close>

definition is_leap :: "int \<Rightarrow> bool" where
  "is_leap year = (year mod 4 = 0 \<and> (year mod 100 \<noteq> 0 \<or> year mod 400 = 0))"

definition days_before_year :: "int \<Rightarrow> int" where
  "days_before_year year = (let y = year - 1 in y * 365 + y div 4 - y div 100 + y div 400)"

definition DAYS_IN_MONTH :: "int list" where
  "DAYS_IN_MONTH = [-1, 31, 28, 31, 30, 31, 30, 31, 31, 30, 31, 30, 31]"

definition DAYS_BEFORE_MONTH :: "int list" where
  "DAYS_BEFORE_MONTH = [-1, 0, 31, 59, 90, 120, 151, 181, 212, 243, 273, 304, 334]"

definition days_before_month :: "int \<Rightarrow> int \<Rightarrow> int" where
  "days_before_month year month =
     DAYS_BEFORE_MONTH ! nat month + (if month > 2 \<and> is_leap year then 1 else 0)"

definition ymd2ord :: "int \<Rightarrow> int \<Rightarrow> int \<Rightarrow> int" where
  "ymd2ord year month day = days_before_year year + days_before_month year month + day"

definition MAXORDINAL :: int where
  "MAXORDINAL = 3652059"

text \<open>
  \<open>_ord2ymd\<close>: first the year from the 400-, 100-, 4- and 1-year cycles, then month and day
  from the day number within the year (an estimate of the month, corrected when it is one
  too large).
\<close>

definition month_day :: "int \<Rightarrow> bool \<Rightarrow> int \<times> int" where
  "month_day n leapyear =
     (let month = (n + 50) div 32;
          preceding = DAYS_BEFORE_MONTH ! nat month
                      + (if month > 2 \<and> leapyear then 1 else 0)
      in if preceding > n
         then (month - 1,
               n - (preceding - (DAYS_IN_MONTH ! nat (month - 1)
                                 + (if month - 1 = 2 \<and> leapyear then 1 else 0))) + 1)
         else (month, n - preceding + 1))"

definition ord2ymd :: "int \<Rightarrow> int \<times> int \<times> int" where
  "ord2ymd ordinal =
     (let n = ordinal - 1;
          n400 = n div 146097; n = n mod 146097;
          n100 = n div 36524; n = n mod 36524;
          n4 = n div 1461; n = n mod 1461;
          n1 = n div 365; n = n mod 365;
          year = n400 * 400 + 1 + n100 * 100 + n4 * 4 + n1
      in if n1 = 4 \<or> n100 = 4 then (year - 1, 12, 31)
         else
           let leapyear = (n1 = 3 \<and> (n4 \<noteq> 24 \<or> n100 = 3))
           in case month_day n leapyear of (month, day) \<Rightarrow> (year, month, day))"

section \<open>Time zones and aware date-times\<close>

text \<open>
  A \<open>ZoneInfo\<close> object, as far as the program observes it. All times are counted in
  seconds from midnight of ordinal day 0; offsets are in seconds.
  \<^item> \<open>utcoff_wall\<close> and \<open>dst_wall\<close> answer \<open>tz.utcoffset(dt)\<close> and \<open>tz.dst(dt)\<close> from
    the wall-clock time and the \<open>fold\<close> attribute of \<open>dt\<close>;
  \<^item> \<open>utcoff_utc\<close> and \<open>fold_utc\<close> are what \<open>tz.fromutc\<close> adds to a UTC time and the
    \<open>fold\<close> it sets on the result.
  The timezone database is outside the repository; it is a parameter.
\<close>

record zone =
  utcoff_wall :: "int \<Rightarrow> bool \<Rightarrow> int"
  dst_wall :: "int \<Rightarrow> bool \<Rightarrow> int"
  utcoff_utc :: "int \<Rightarrow> int"
  fold_utc :: "int \<Rightarrow> bool"

record datetime =
  year :: int
  month :: int
  day :: int
  hour :: int
  minute :: int
  second :: int
  microsecond :: int
  fold_attr :: bool
  tzinfo :: zone

definition to_seconds :: "datetime \<Rightarrow> int" where
  "to_seconds dt =
     ymd2ord (year dt) (month dt) (day dt) * 86400
     + hour dt * 3600 + minute dt * 60 + second dt"

text \<open>
  The date-time that lies \<open>secs\<close> seconds after midnight of ordinal day 0, with a given
  microsecond and zone and \<open>fold = 0\<close>; refused outside the years 1 to 9999.
  \<open>dt + timedelta(seconds=delta)\<close> is this at \<open>to_seconds dt + delta\<close>.
\<close>

definition of_seconds :: "int \<Rightarrow> int \<Rightarrow> zone \<Rightarrow> exn + datetime" where
  "of_seconds secs us tz =
     (let days = secs div 86400;
          rem = secs mod 86400
      in if 0 < days \<and> days \<le> MAXORDINAL
         then (case ord2ymd days of (y, m, d) \<Rightarrow>
                 Inr \<lparr>year = y, month = m, day = d,
                      hour = rem div 3600, minute = rem mod 3600 div 60, second = rem mod 60,
                      microsecond = us, fold_attr = False, tzinfo = tz\<rparr>)
         else Inl (OverflowError (ustr ''date value out of range'')))"

definition add_seconds :: "datetime \<Rightarrow> int \<Rightarrow> exn + datetime" where
  "add_seconds dt delta = of_seconds (to_seconds dt + delta) (microsecond dt) (tzinfo dt)"

text \<open>
  \<open>dt.utcoffset()\<close> and \<open>dt.dst()\<close> ask the zone and refuse a value that is not strictly
  between minus and plus 24 hours.
\<close>

definition offset_msg :: str where
  "offset_msg = ustr ''offset must be a timedelta strictly between -timedelta(hours=24) and timedelta(hours=24).''"

definition check_offset :: "int \<Rightarrow> exn + int" where
  "check_offset off =
     (if - 86400 < off \<and> off < 86400 then Inr off else Inl (ValueError offset_msg))"

definition utcoffset :: "datetime \<Rightarrow> exn + int" where
  "utcoffset dt = check_offset (utcoff_wall (tzinfo dt) (to_seconds dt) (fold_attr dt))"

definition dst :: "datetime \<Rightarrow> exn + int" where
  "dst dt = check_offset (dst_wall (tzinfo dt) (to_seconds dt) (fold_attr dt))"

text \<open>\<open>tz.fromutc(dt)\<close> of \<open>ZoneInfo\<close>: add the offset in force at that UTC time, set \<open>fold\<close>.\<close>

definition fromutc :: "zone \<Rightarrow> datetime \<Rightarrow> exn + datetime" where
  "fromutc tz dt =
     (let timestamp = to_seconds dt in
      case add_seconds dt (utcoff_utc tz timestamp) of
        Inl e \<Rightarrow> Inl e
      | Inr r \<Rightarrow> Inr (r\<lparr>fold_attr := fold_utc tz timestamp\<rparr>))"

text \<open>
  \<open>dt.astimezone(tz)\<close>. \<open>same\<close> says that \<open>tz\<close> is the very object \<open>dt.tzinfo\<close>, in which
  case the call returns \<open>dt\<close> untouched; \<open>ZoneInfo\<close> caches its instances by key, so two
  lookups give the same object exactly when the keys are equal.
\<close>

definition astimezone :: "datetime \<Rightarrow> bool \<Rightarrow> zone \<Rightarrow> exn + datetime" where
  "astimezone dt same tz =
     (if same then Inr dt
      else case utcoffset dt of
        Inl e \<Rightarrow> Inl e
      | Inr offset \<Rightarrow>
          (case add_seconds dt (- offset) of
             Inl e \<Rightarrow> Inl e
           | Inr utc \<Rightarrow> fromutc tz (utc\<lparr>tzinfo := tz\<rparr>)))"

section \<open>Text of numbers and of date-times\<close>

fun str_of_nat :: "nat \<Rightarrow> str" where
  "str_of_nat n = (if n < 10 then [48 + n] else str_of_nat (n div 10) @ [48 + n mod 10])"

declare str_of_nat.simps [simp del]

definition zero_pad :: "nat \<Rightarrow> str \<Rightarrow> str" where
  "zero_pad w s = replicate (w - length s) 48 @ s"

text \<open>\<open>"%0wd" % i\<close>: decimal digits, a minus sign first, zeros up to the width \<open>w\<close>.\<close>

definition fmt_d :: "nat \<Rightarrow> int \<Rightarrow> str" where
  "fmt_d w i =
     (if i < 0 then 45 # zero_pad (w - 1) (str_of_nat (nat (- i)))
      else zero_pad w (str_of_nat (nat i)))"

definition format_offset :: "int \<Rightarrow> str" where
  "format_offset off =
     (let sign = (if off < 0 then ustr ''-'' else ustr ''+'');
          a = \<bar>off\<bar>;
          hh = a div 3600; mm = a mod 3600 div 60; ss = a mod 60
      in sign @ fmt_d 2 hh @ ustr '':'' @ fmt_d 2 mm
         @ (if ss \<noteq> 0 then ustr '':'' @ fmt_d 2 ss else []))"

text \<open>\<open>dt.isoformat(timespec="seconds")\<close> of an aware date-time: the microsecond is left out.\<close>

definition isoformat_seconds :: "datetime \<Rightarrow> exn + str" where
  "isoformat_seconds dt =
     (case utcoffset dt of
        Inl e \<Rightarrow> Inl e
      | Inr off \<Rightarrow>
          Inr (fmt_d 4 (year dt) @ ustr ''-'' @ fmt_d 2 (month dt) @ ustr ''-'' @ fmt_d 2 (day dt)
               @ ustr ''T'' @ fmt_d 2 (hour dt) @ ustr '':'' @ fmt_d 2 (minute dt)
               @ ustr '':'' @ fmt_d 2 (second dt) @ format_offset off))"

section \<open>Parsing \<open>%H:%M\<close>\<close>

text \<open>
  \<open>datetime.strptime(s, "%H:%M")\<close> matches the regular expression
  \<^verbatim>\<open>(?P<H>2[0-3]|[0-1]\d|\d):(?P<M>[0-5]\d|\d)\<close> at the start of \<open>s\<close>, refuses text left
  over after the match, and reads the two groups with \<open>int\<close>. For a \<open>str\<close> pattern \<open>\d\<close> is any
  Unicode decimal digit. Those come in runs of ten consecutive code points; \<open>zeros\<close> lists
  the code points of the zero digits beyond ASCII that the interpreter's Unicode tables know.
\<close>

definition digit_value :: "nat list \<Rightarrow> nat \<Rightarrow> nat option" where
  "digit_value zeros c =
     (if 48 \<le> c \<and> c < 58 then Some (c - 48)
      else case find (\<lambda>z. z \<le> c \<and> c < z + 10) zeros of
        Some z \<Rightarrow> Some (c - z)
      | None \<Rightarrow> None)"

definition is_digit :: "nat list \<Rightarrow> nat \<Rightarrow> bool" where
  "is_digit zeros c = (digit_value zeros c \<noteq> None)"

text \<open>The alternatives of each group in the order the matcher tries them: text matched, rest.\<close>

definition hour_alts :: "nat list \<Rightarrow> str \<Rightarrow> (str \<times> str) list" where
  "hour_alts zeros s =
     (case s of c1 # c2 # r \<Rightarrow> if c1 = 50 \<and> 48 \<le> c2 \<and> c2 \<le> 51 then [([c1, c2], r)] else []
              | _ \<Rightarrow> [])
     @ (case s of c1 # c2 # r \<Rightarrow>
                  if (c1 = 48 \<or> c1 = 49) \<and> is_digit zeros c2 then [([c1, c2], r)] else []
               | _ \<Rightarrow> [])
     @ (case s of c1 # r \<Rightarrow> if is_digit zeros c1 then [([c1], r)] else [] | _ \<Rightarrow> [])"

definition minute_alts :: "nat list \<Rightarrow> str \<Rightarrow> (str \<times> str) list" where
  "minute_alts zeros s =
     (case s of c1 # c2 # r \<Rightarrow>
                if 48 \<le> c1 \<and> c1 \<le> 53 \<and> is_digit zeros c2 then [([c1, c2], r)] else []
              | _ \<Rightarrow> [])
     @ (case s of c1 # r \<Rightarrow> if is_digit zeros c1 then [([c1], r)] else [] | _ \<Rightarrow> [])"

fun first_match :: "('a \<Rightarrow> 'b option) \<Rightarrow> 'a list \<Rightarrow> 'b option" where
  "first_match f [] = None"
| "first_match f (x # xs) = (case f x of Some y \<Rightarrow> Some y | None \<Rightarrow> first_match f xs)"

definition regex_match :: "nat list \<Rightarrow> str \<Rightarrow> (str \<times> str \<times> str) option" where
  "regex_match zeros s =
     first_match
       (\<lambda>(h, r). case r of
            c # r' \<Rightarrow> if c = 58
                       then first_match (\<lambda>(m, r''). Some (h, m, r'')) (minute_alts zeros r')
                       else None
          | [] \<Rightarrow> None)
       (hour_alts zeros s)"

definition int_of_digits :: "nat list \<Rightarrow> str \<Rightarrow> int" where
  "int_of_digits zeros cs =
     foldl (\<lambda>acc c. 10 * acc + (case digit_value zeros c of Some v \<Rightarrow> int v | None \<Rightarrow> 0)) 0 cs"

text \<open>The parsed \<open>(hour, minute)\<close>, or \<open>None\<close> where \<open>strptime\<close> raises \<open>ValueError\<close>.\<close>

definition strptime_HM :: "nat list \<Rightarrow> str \<Rightarrow> (int \<times> int) option" where
  "strptime_HM zeros s =
     (case regex_match zeros s of
        None \<Rightarrow> None
      | Some (h, m, rest) \<Rightarrow>
          if rest \<noteq> [] then None
          else Some (int_of_digits zeros h, int_of_digits zeros m))"

section \<open>Floating-point numbers\<close>

text \<open>
  A finite \<open>float\<close> is a sign and a magnitude \<open>mant * 2 ^ expo\<close>; the sign is kept apart
  because \<open>-0.0\<close> prints differently from \<open>0.0\<close>. Division rounds the exact quotient to the
  nearest number with a 53-bit mantissa, ties to the even mantissa. The exponent is not
  bounded: overflow and subnormal numbers are far from the quotients of this program.
\<close>

record pyfloat =
  negative :: bool
  mant :: nat
  expo :: int

text \<open>The integer nearest to \<open>p / q\<close>, the even one of two equally near.\<close>

definition rne_div :: "nat \<Rightarrow> nat \<Rightarrow> nat" where
  "rne_div p q =
     (let d = p div q; r = p mod q
      in if 2 * r < q then d
         else if q < 2 * r then d + 1
         else if even d then d else d + 1)"

fun bit_length :: "nat \<Rightarrow> nat" where
  "bit_length n = (if n = 0 then 0 else Suc (bit_length (n div 2)))"

declare bit_length.simps [simp del]

text \<open>
  The nearest double to \<open>n / k\<close> for \<open>k > 0\<close>, as mantissa and exponent: the quotient is
  scaled by a power of two into the interval from \<open>2 ^ 52\<close> to \<open>2 ^ 53\<close> and rounded there.
\<close>

definition round_ratio :: "nat \<Rightarrow> nat \<Rightarrow> nat \<times> int" where
  "round_ratio n k =
     (if n = 0 then (0, 0)
      else
        let s0 = 52 + int (bit_length k) - int (bit_length n);
            s = (if n * 2 ^ nat s0 < 2 ^ 52 * (k * 2 ^ nat (- s0)) then s0 + 1 else s0)
        in (rne_div (n * 2 ^ nat s) (k * 2 ^ nat (- s)), - s))"

text \<open>\<open>a / b\<close> of two \<open>int\<close>s with \<open>b > 0\<close>, and \<open>x / k\<close> of a \<open>float\<close> by a positive \<open>int\<close>.\<close>

definition int_true_div :: "int \<Rightarrow> nat \<Rightarrow> pyfloat" where
  "int_true_div a b =
     (case round_ratio (nat \<bar>a\<bar>) b of
        (m, e) \<Rightarrow> \<lparr>negative = (a < 0), mant = m, expo = e\<rparr>)"

definition float_div :: "pyfloat \<Rightarrow> nat \<Rightarrow> pyfloat" where
  "float_div x k =
     (case round_ratio (mant x * 2 ^ nat (expo x)) (k * 2 ^ nat (- expo x)) of
        (m, e) \<Rightarrow> \<lparr>negative = negative x, mant = m, expo = e\<rparr>)"

text \<open>\<open>timedelta.total_seconds()\<close> of a whole number of seconds: microseconds by a million.\<close>

definition total_seconds :: "int \<Rightarrow> pyfloat" where
  "total_seconds td = int_true_div (td * 1000000) 1000000"

definition is_integer :: "pyfloat \<Rightarrow> bool" where
  "is_integer x = ((mant x * 2 ^ nat (expo x)) mod 2 ^ nat (- expo x) = 0)"

text \<open>
  \<open>format(x, "+.<prec>f")\<close> for \<open>prec > 0\<close>: the sign, then the exact value rounded to \<open>prec\<close>
  decimals (ties to even), the fraction padded with zeros.
\<close>

definition format_f :: "nat \<Rightarrow> pyfloat \<Rightarrow> str" where
  "format_f prec x =
     (let n = rne_div (mant x * 2 ^ nat (expo x) * 10 ^ prec) (2 ^ nat (- expo x))
      in (if negative x then ustr ''-'' else ustr ''+'')
         @ str_of_nat (n div 10 ^ prec) @ ustr ''.''
         @ zero_pad prec (str_of_nat (n mod 10 ^ prec)))"

definition rstrip :: "nat \<Rightarrow> str \<Rightarrow> str" where
  "rstrip c s = rev (dropWhile (\<lambda>x. x = c) (rev s))"

section \<open>The environment of a call\<close>

text \<open>
  What the program reads and does not compute:
  \<^item> \<open>tzdb\<close>: the constructor \<open>ZoneInfo(key)\<close>, giving the zone or the text \<open>str(e)\<close> of the
    exception it raises;
  \<^item> \<open>utcnow\<close>, \<open>utcnow_us\<close>: the clock, as UTC seconds from midnight of ordinal day 0 and
    the microsecond;
  \<^item> \<open>local_tzinfo\<close>: \<open>str\<close> of the system's local \<open>tzinfo\<close>, or \<open>None\<close> when there is none;
  \<^item> \<open>local_timezone\<close>: the command line's \<open>--local-timezone\<close>;
  \<^item> \<open>decimal_zeros\<close>: the Unicode decimal digits beyond ASCII (see \<open>digit_value\<close>).
\<close>

record env =
  tzdb :: "str \<Rightarrow> str + zone"
  utcnow :: int
  utcnow_us :: int
  local_tzinfo :: "str option"
  local_timezone :: "str option"
  decimal_zeros :: "nat list"

text \<open>\<open>datetime.now(tz)\<close>: the clock's UTC time, handed to \<open>tz.fromutc\<close>.\<close>

definition now :: "env \<Rightarrow> zone \<Rightarrow> exn + datetime" where
  "now e tz =
     (case of_seconds (utcnow e) (utcnow_us e) tz of
        Inl err \<Rightarrow> Inl err
      | Inr utc \<Rightarrow> fromutc tz utc)"

section \<open>The program: \<open>src/main.py\<close>\<close>

record TimeResult =
  timezone :: str
  datetime :: str
  is_dst :: bool

record TimeConversionResult =
  source :: TimeResult
  target :: TimeResult
  time_difference :: str

text \<open>The label that one platform reports for China Standard Time (six CJK characters).\<close>

definition china_standard_time_label :: str where
  "china_standard_time_label = [20013, 22269, 26631, 20934, 26102, 38388]"

definition str_of_tzinfo :: "str option \<Rightarrow> str" where
  "str_of_tzinfo t = (case t of None \<Rightarrow> ustr ''None'' | Some name \<Rightarrow> name)"

definition get_local_tz :: "env \<Rightarrow> str option \<Rightarrow> exn + str" where
  "get_local_tz e local_tz_override =
     (case (case local_tz_override of
              None \<Rightarrow> None
            | Some v \<Rightarrow> if v \<noteq> [] then Some v else None) of
        Some v \<Rightarrow> Inr v
      | None \<Rightarrow>
          let tzinfo = local_tzinfo e in
          if str_of_tzinfo tzinfo = china_standard_time_label then Inr (ustr ''Asia/Shanghai'')
          else if tzinfo \<noteq> None then Inr (str_of_tzinfo tzinfo)
          else Inl (ValueError
                 (ustr ''Could not determine local timezone - tzinfo is {tzinfo}'')))"

definition get_zoneinfo :: "env \<Rightarrow> str \<Rightarrow> exn + zone" where
  "get_zoneinfo e timezone_name =
     (case tzdb e timezone_name of
        Inr z \<Rightarrow> Inr z
      | Inl msg \<Rightarrow> Inl (ValueError (ustr ''Invalid timezone: '' @ msg)))"

text \<open>
  \<open>TimeResult(timezone=name, datetime=t.isoformat(timespec="seconds"), is_dst=bool(t.dst()))\<close>,
  the constructor call that both tools make.
\<close>

definition time_result :: "str \<Rightarrow> datetime \<Rightarrow> exn + TimeResult" where
  "time_result name t =
     (case isoformat_seconds t of
        Inl err \<Rightarrow> Inl err
      | Inr stamp \<Rightarrow>
          (case dst t of
             Inl err \<Rightarrow> Inl err
           | Inr d \<Rightarrow> Inr \<lparr>timezone = name, datetime = stamp, is_dst = (d \<noteq> 0)\<rparr>))"

definition get_current_time :: "env \<Rightarrow> str \<Rightarrow> exn + TimeResult" where
  "get_current_time e timezone_name0 =
     (case (if timezone_name0 = ustr ''local'' then get_local_tz e (local_timezone e)
            else Inr timezone_name0) of
        Inl err \<Rightarrow> Inl err
      | Inr timezone_name \<Rightarrow>
     (case get_zoneinfo e timezone_name of
        Inl err \<Rightarrow> Inl err
      | Inr tz \<Rightarrow>
     (case now e tz of
        Inl err \<Rightarrow> Inl err
      | Inr current_time \<Rightarrow> time_result timezone_name current_time)))"

definition time_format_msg :: str where
  "time_format_msg = ustr ''Invalid time format. Expected HH:MM [24-hour format]''"

text \<open>Lines 103 to 110: today's date in the source zone with the parsed hour and minute.\<close>

definition build_source_time :: "datetime \<Rightarrow> int \<times> int \<Rightarrow> zone \<Rightarrow> datetime" where
  "build_source_time nw parsed_time source_timezone =
     \<lparr>year = year nw, month = month nw, day = day nw,
      hour = fst parsed_time, minute = snd parsed_time, second = 0,
      microsecond = 0, fold_attr = False, tzinfo = source_timezone\<rparr>"

text \<open>
  Lines 94 to 112 of \<open>convert_time\<close>: both zones are looked up, then the time is parsed,
  then \<open>source_time\<close> and \<open>target_time\<close> are built.
\<close>

definition source_and_target_time ::
  "env \<Rightarrow> str \<Rightarrow> str \<Rightarrow> str \<Rightarrow> exn + datetime \<times> datetime" where
  "source_and_target_time e source_tz time_str target_tz =
     (case get_zoneinfo e source_tz of
        Inl err \<Rightarrow> Inl err
      | Inr source_timezone \<Rightarrow>
     (case get_zoneinfo e target_tz of
        Inl err \<Rightarrow> Inl err
      | Inr target_timezone \<Rightarrow>
     (case strptime_HM (decimal_zeros e) time_str of
        None \<Rightarrow> Inl (ValueError time_format_msg)
      | Some parsed_time \<Rightarrow>
     (case now e source_timezone of
        Inl err \<Rightarrow> Inl err
      | Inr nw \<Rightarrow>
          let source_time = build_source_time nw parsed_time source_timezone in
          (case astimezone source_time (source_tz = target_tz) target_timezone of
             Inl err \<Rightarrow> Inl err
           | Inr target_time \<Rightarrow> Inr (source_time, target_time))))))"

text \<open>Line 115: the difference of two offsets given in seconds, as a \<open>float\<close> of hours.\<close>

definition or_zero :: "int \<Rightarrow> int" where
  "or_zero off = (if off \<noteq> 0 then off else 0)"

definition hours_difference :: "int \<Rightarrow> int \<Rightarrow> pyfloat" where
  "hours_difference source_offset target_offset =
     float_div (total_seconds (target_offset - source_offset)) 3600"

text \<open>Lines 117 to 120.\<close>

definition time_diff_str :: "pyfloat \<Rightarrow> str" where
  "time_diff_str h =
     (if is_integer h then format_f 1 h @ ustr ''h''
      else rstrip 46 (rstrip 48 (format_f 2 h)) @ ustr ''h'')"

definition convert_time :: "env \<Rightarrow> str \<Rightarrow> str \<Rightarrow> str \<Rightarrow> exn + TimeConversionResult" where
  "convert_time e source_tz time_str target_tz =
     (case source_and_target_time e source_tz time_str target_tz of
        Inl err \<Rightarrow> Inl err
      | Inr (source_time, target_time) \<Rightarrow>
     (case utcoffset source_time of
        Inl err \<Rightarrow> Inl err
      | Inr so \<Rightarrow>
     (case utcoffset target_time of
        Inl err \<Rightarrow> Inl err
      | Inr tgo \<Rightarrow>
          let source_offset = or_zero so;
              target_offset = or_zero tgo;
              time_diff = time_diff_str (hours_difference source_offset target_offset)
          in (case time_result source_tz source_time of
                Inl err \<Rightarrow> Inl err
              | Inr src \<Rightarrow>
                  (case time_result target_tz target_time of
                     Inl err \<Rightarrow> Inl err
                   | Inr tgt \<Rightarrow>
                       Inr \<lparr>source = src, target = tgt, time_difference = time_diff\<rparr>)))))"

section \<open>Strings of the form \<open>HH:MM\<close>\<close>

text \<open>
  In the words of the specification, a strict 24-hour \<open>HH:MM\<close> string: an hour from 0 to
  23 and a minute from 0 to 59, each written with one or two of the digits \<open>0\<close> to \<open>9\<close>
  (zero-padded or not), a colon between them, and nothing else.
\<close>

definition ascii_digit :: "nat \<Rightarrow> bool" where
  "ascii_digit c = (48 \<le> c \<and> c \<le> 57)"

definition ascii_value :: "str \<Rightarrow> nat" where
  "ascii_value cs = foldl (\<lambda>acc c. 10 * acc + (c - 48)) 0 cs"

definition strict_field :: "nat \<Rightarrow> str \<Rightarrow> bool" where
  "strict_field bound cs =
     ((length cs = 1 \<or> length cs = 2) \<and> list_all ascii_digit cs \<and> ascii_value cs \<le> bound)"

definition strict_hhmm :: "str \<Rightarrow> bool" where
  "strict_hhmm s =
     (case dropWhile (\<lambda>c. c \<noteq> 58) s of
        [] \<Rightarrow> False
      | c # m \<Rightarrow> strict_field 23 (takeWhile (\<lambda>c. c \<noteq> 58) s) \<and> strict_field 59 m)"

text \<open>
  The strings that \<open>strptime\<close> takes for \<open>%H:%M\<close>, written out. A decimal digit is one of
  \<open>0\<close> to \<open>9\<close> or one of the ten digits of another script. The hour is a decimal digit, or
  \<open>0\<close> or \<open>1\<close> and a decimal digit, or \<open>2\<close> and one of \<open>0\<close> to \<open>3\<close>; the minute is a decimal
  digit, or one of \<open>0\<close> to \<open>5\<close> and a decimal digit; the digits named here are the ASCII
  ones. \<open>hhmm_at zeros k s\<close> takes the first \<open>k\<close> characters for the hour.
\<close>

definition decimal_digit :: "nat list \<Rightarrow> nat \<Rightarrow> bool" where
  "decimal_digit zeros c = (ascii_digit c \<or> list_ex (\<lambda>z. z \<le> c \<and> c < z + 10) zeros)"

definition hour_text :: "nat list \<Rightarrow> str \<Rightarrow> bool" where
  "hour_text zeros h =
     (case h of
        [a] \<Rightarrow> decimal_digit zeros a
      | [a, b] \<Rightarrow> (a = 48 \<or> a = 49) \<and> decimal_digit zeros b \<or> a = 50 \<and> 48 \<le> b \<and> b \<le> 51
      | _ \<Rightarrow> False)"

definition minute_text :: "nat list \<Rightarrow> str \<Rightarrow> bool" where
  "minute_text zeros m =
     (case m of
        [a] \<Rightarrow> decimal_digit zeros a
      | [a, b] \<Rightarrow> 48 \<le> a \<and> a \<le> 53 \<and> decimal_digit zeros b
      | _ \<Rightarrow> False)"

definition hhmm_at :: "nat list \<Rightarrow> nat \<Rightarrow> str \<Rightarrow> bool" where
  "hhmm_at zeros k s =
     (case drop k s of
        [] \<Rightarrow> False
      | c # m \<Rightarrow> c = 58 \<and> hour_text zeros (take k s) \<and> minute_text zeros m)"

definition parser_hhmm :: "nat list \<Rightarrow> str \<Rightarrow> bool" where
  "parser_hhmm zeros s = (hhmm_at zeros 1 s \<or> hhmm_at zeros 2 s)"

text \<open>
  The exceptions of the date-time arithmetic: a date outside the years 1 to 9999, and an
  offset of a zone that is not within a day.
\<close>

definition datetime_error :: "exn \<Rightarrow> bool" where
  "datetime_error err =
     (err = OverflowError (ustr ''date value out of range'') \<or> err = ValueError offset_msg)"

section \<open>The text of an aware date-time\<close>

text \<open>
  The fields of a date-time of the calendar: the year from 1 to 9999, a month, a day, and a
  time of day.
\<close>

definition valid_fields :: "datetime \<Rightarrow> bool" where
  "valid_fields dt =
     (1 \<le> year dt \<and> year dt \<le> 9999 \<and> 1 \<le> month dt \<and> month dt \<le> 12
      \<and> 1 \<le> day dt \<and> day dt \<le> 31 \<and> 0 \<le> hour dt \<and> hour dt \<le> 23
      \<and> 0 \<le> minute dt \<and> minute dt \<le> 59 \<and> 0 \<le> second dt \<and> second dt \<le> 59)"

text \<open>
  In the words of the specification, an ISO-8601 date-time string of second precision
  that carries a UTC offset: \<open>YYYY-MM-DDThh:mm:ss\<close> followed by \<open>+hh:mm\<close> or \<open>-hh:mm\<close>.
  In a pattern \<open>d\<close> stands for one of the digits \<open>0\<close> to \<open>9\<close> and every other character
  for itself.
\<close>

fun matches :: "string \<Rightarrow> str \<Rightarrow> bool" where
  "matches [] [] = True"
| "matches (p # ps) (c # cs) =
     ((if p = CHR ''d'' then 48 \<le> c \<and> c < 58 else c = of_char p) \<and> matches ps cs)"
| "matches _ _ = False"

definition iso_seconds_with_offset :: "str \<Rightarrow> bool" where
  "iso_seconds_with_offset s =
     (matches ''dddd-dd-ddTdd:dd:dd'' (take 19 s)
      \<and> (matches ''+dd:dd'' (drop 19 s) \<or> matches ''-dd:dd'' (drop 19 s)))"

text \<open>
  The ISO-8601 text of given fields and a given offset in seconds, of which the hours and
  minutes are written.
\<close>

definition digits2 :: "int \<Rightarrow> str" where
  "digits2 n = [48 + nat n div 10, 48 + nat n mod 10]"

definition digits4 :: "int \<Rightarrow> str" where
  "digits4 n = [48 + nat n div 1000, 48 + nat n div 100 mod 10,
                48 + nat n div 10 mod 10, 48 + nat n mod 10]"

definition iso_text :: "datetime \<Rightarrow> int \<Rightarrow> str" where
  "iso_text t off =
     digits4 (year t) @ ustr ''-'' @ digits2 (month t) @ ustr ''-'' @ digits2 (day t)
     @ ustr ''T'' @ digits2 (hour t) @ ustr '':'' @ digits2 (minute t) @ ustr '':''
     @ digits2 (second t)
     @ (if off < 0 then ustr ''-'' else ustr ''+'')
     @ digits2 (\<bar>off\<bar> div 3600) @ ustr '':'' @ digits2 (\<bar>off\<bar> mod 3600 div 60)"

text \<open>What Python writes after the minutes of an offset that has a seconds part.\<close>

definition offset_seconds_text :: "int \<Rightarrow> str" where
  "offset_seconds_text off =
     (if \<bar>off\<bar> mod 60 \<noteq> 0 then ustr '':'' @ digits2 (\<bar>off\<bar> mod 60) else [])"

section \<open>Instants\<close>

text \<open>
  The absolute instant that an aware date-time stands for, in UTC seconds: its wall-clock
  time less its offset. And the wall-clock time that a zone shows at a UTC instant.
\<close>

definition utc_instant :: "datetime \<Rightarrow> int" where
  "utc_instant dt = to_seconds dt - utcoff_wall (tzinfo dt) (to_seconds dt) (fold_attr dt)"

definition wall_time_at :: "zone \<Rightarrow> int \<Rightarrow> int" where
  "wall_time_at z u = u + utcoff_utc z u"

text \<open>The calendar date and the time of day at a count of seconds.\<close>

definition date_at :: "int \<Rightarrow> int \<times> int \<times> int" where
  "date_at secs = ord2ymd (secs div 86400)"

definition time_of_day_at :: "int \<Rightarrow> int \<times> int \<times> int" where
  "time_of_day_at secs = (secs mod 86400 div 3600, secs mod 3600 div 60, secs mod 60)"

section \<open>An example environment\<close>

text \<open>
  Three zones with a fixed offset and one with a transition: New York around the end of
  daylight saving time on 2 November 2025, when 06:00 UTC turns 02:00 local time back into
  01:00. The clock reads 1 November 2025, 12:34:56.789012 UTC. A key that the database does
  not know gives the text of \<open>ZoneInfoNotFoundError\<close>, which is quoted.
\<close>

definition fixed_zone :: "int \<Rightarrow> zone" where
  "fixed_zone off =
     \<lparr>utcoff_wall = (\<lambda>w f. off), dst_wall = (\<lambda>w f. 0),
      utcoff_utc = (\<lambda>u. off), fold_utc = (\<lambda>u. False)\<rparr>"

definition new_york_autumn_2025 :: zone where
  "new_york_autumn_2025 =
     \<lparr>utcoff_wall = (\<lambda>w f. if w < 63897728400 then - 14400
                            else if w < 63897732000 then (if f then - 18000 else - 14400)
                            else - 18000),
      dst_wall = (\<lambda>w f. if w < 63897728400 then 3600
                         else if w < 63897732000 then (if f then 0 else 3600)
                         else 0),
      utcoff_utc = (\<lambda>u. if u < 63897746400 then - 14400 else - 18000),
      fold_utc = (\<lambda>u. 63897746400 \<le> u \<and> u < 63897750000)\<rparr>"

definition example_tzdb :: "str \<Rightarrow> str + zone" where
  "example_tzdb key =
     (if key = ustr ''UTC'' then Inr (fixed_zone 0)
      else if key = ustr ''Asia/Kolkata'' then Inr (fixed_zone 19800)
      else if key = ustr ''Asia/Shanghai'' then Inr (fixed_zone 28800)
      else if key = ustr ''America/New_York'' then Inr new_york_autumn_2025
      else Inl (39 # ustr ''No time zone found with key '' @ key @ [39]))"

definition example_env :: env where
  "example_env =
     \<lparr>tzdb = example_tzdb, utcnow = 63897683696, utcnow_us = 789012,
      local_tzinfo = Some (ustr ''UTC''), local_timezone = None,
      decimal_zeros = [1632, 1776, 65296]\<rparr>"

text \<open>
  A zone whose offset is not a whole number of minutes: Monrovia, 44 minutes and 30 seconds
  behind UTC until 1972, with the clock at noon UTC on 1 January 1971.
\<close>

definition monrovia_env :: env where
  "monrovia_env =
     example_env\<lparr>tzdb := (\<lambda>key. if key = ustr ''Africa/Monrovia'' then Inr (fixed_zone (- 2670))
                                else example_tzdb key),
                 utcnow := 62167262400\<rparr>"

section \<open>Calendar arithmetic\<close>

text \<open>
  \<open>ord2ymd\<close> is a right inverse of \<open>ymd2ord\<close> on the positive ordinals, and the date it
  gives is a date of the calendar.
\<close>

lemma nth_tables:
  "DAYS_BEFORE_MONTH ! 1 = 0" "DAYS_BEFORE_MONTH ! 2 = 31" "DAYS_BEFORE_MONTH ! 3 = 59"
  "DAYS_BEFORE_MONTH ! 4 = 90" "DAYS_BEFORE_MONTH ! 5 = 120" "DAYS_BEFORE_MONTH ! 6 = 151"
  "DAYS_BEFORE_MONTH ! 7 = 181" "DAYS_BEFORE_MONTH ! 8 = 212" "DAYS_BEFORE_MONTH ! 9 = 243"
  "DAYS_BEFORE_MONTH ! 10 = 273" "DAYS_BEFORE_MONTH ! 11 = 304" "DAYS_BEFORE_MONTH ! 12 = 334"
  "DAYS_IN_MONTH ! 1 = 31" "DAYS_IN_MONTH ! 2 = 28" "DAYS_IN_MONTH ! 3 = 31"
  "DAYS_IN_MONTH ! 4 = 30" "DAYS_IN_MONTH ! 5 = 31" "DAYS_IN_MONTH ! 6 = 30"
  "DAYS_IN_MONTH ! 7 = 31" "DAYS_IN_MONTH ! 8 = 31" "DAYS_IN_MONTH ! 9 = 30"
  "DAYS_IN_MONTH ! 10 = 31" "DAYS_IN_MONTH ! 11 = 30" "DAYS_IN_MONTH ! 12 = 31"
  "DAYS_IN_MONTH ! 0 = -1" "DAYS_BEFORE_MONTH ! 0 = -1"
  "DAYS_IN_MONTH ! Suc 0 = 31" "DAYS_BEFORE_MONTH ! Suc 0 = 0"
  by (simp_all add: DAYS_BEFORE_MONTH_def DAYS_IN_MONTH_def numeral_nat)

lemma month_day_case:
  assumes "month_day n leapyear = (m, d)" and "(n + 50) div 32 = k"
    and "1 \<le> k" and "k \<le> 12" and "32 * k - 50 \<le> n" and "n < 32 * k - 18"
    and "0 \<le> n" and "n < (if leapyear then 366 else 365)"
    and "k = 1 \<or> k = 2 \<or> k = 3 \<or> k = 4 \<or> k = 5 \<or> k = 6 \<or> k = 7 \<or> k = 8 \<or> k = 9
         \<or> k = 10 \<or> k = 11 \<or> k = 12"
  shows "1 \<le> m \<and> m \<le> 12 \<and> 1 \<le> d \<and> d \<le> 31
         \<and> DAYS_BEFORE_MONTH ! nat m + (if m > 2 \<and> leapyear then 1 else 0) + d = n + 1"
  using assms(9,1,2,3,4,5,6,7,8) unfolding month_day_def Let_def
  by (elim disjE) (auto simp: nth_tables split: if_splits)

lemma month_day_sound:
  assumes "0 \<le> n" and "n < (if leapyear then 366 else 365)"
    and "month_day n leapyear = (m, d)"
  shows "1 \<le> m \<and> m \<le> 12 \<and> 1 \<le> d \<and> d \<le> 31
         \<and> DAYS_BEFORE_MONTH ! nat m + (if m > 2 \<and> leapyear then 1 else 0) + d = n + 1"
proof -
  define k where "k = (n + 50) div 32"
  have k: "1 \<le> k" "k \<le> 12" using assms(1,2) unfolding k_def by (auto split: if_splits)
  have b: "32 * k - 50 \<le> n" "n < 32 * k - 18" unfolding k_def by linarith+
  have c: "k = 1 \<or> k = 2 \<or> k = 3 \<or> k = 4 \<or> k = 5 \<or> k = 6 \<or> k = 7 \<or> k = 8 \<or> k = 9
         \<or> k = 10 \<or> k = 11 \<or> k = 12" using k by presburger
  show ?thesis
    by (rule month_day_case [OF assms(3) k_def [symmetric] k b assms(1,2) c])
qed

lemma days_before_year_split:
  assumes "0 \<le> b" "b \<le> 3" "0 \<le> c" "c \<le> 24" "0 \<le> e" "e \<le> 3"
  shows "days_before_year (400 * a + 100 * b + 4 * c + e + 1)
         = 146097 * a + 36524 * b + 1461 * c + 365 * e"
proof -
  let ?y = "400 * a + 100 * b + 4 * c + e"
  have "?y = e + 4 * (100 * a + 25 * b + c)" by simp
  hence d4: "?y div 4 = 100 * a + 25 * b + c" using assms by simp
  have "?y = (4 * c + e) + 100 * (4 * a + b)" by simp
  hence d100: "?y div 100 = 4 * a + b" using assms by simp
  have "?y = (100 * b + 4 * c + e) + 400 * a" by simp
  hence d400: "?y div 400 = a" using assms by simp
  show ?thesis unfolding days_before_year_def Let_def using d4 d100 d400 by simp
qed

lemma mod_zero_top: "0 < x \<Longrightarrow> x \<le> m \<Longrightarrow> (x mod m = 0) = (x = (m::int))"
  by (cases "x = m") simp_all

lemma is_leap_split:
  assumes "0 \<le> b" "b \<le> 3" "0 \<le> c" "c \<le> 24" "0 \<le> e" "e \<le> 3"
  shows "is_leap (400 * a + 100 * b + 4 * c + e + 1) = (e = 3 \<and> (c \<noteq> 24 \<or> b = 3))"
proof -
  let ?y = "400 * a + 100 * b + 4 * c + e + 1"
  have "?y = (e + 1) + 4 * (100 * a + 25 * b + c)" by simp
  hence m4: "?y mod 4 = (e + 1) mod 4" by (simp only: mod_mult_self2)
  have "?y = (4 * c + e + 1) + 100 * (4 * a + b)" by simp
  hence m100: "?y mod 100 = (4 * c + e + 1) mod 100" by (simp only: mod_mult_self2)
  have "?y = (100 * b + 4 * c + e + 1) + 400 * a" by simp
  hence m400: "?y mod 400 = (100 * b + 4 * c + e + 1) mod 400" by (simp only: mod_mult_self2)
  have e4: "((e + 1) mod 4 = 0) = (e = 3)"
    using assms mod_zero_top [of "e + 1" 4] by simp
  have e100: "((4 * c + e + 1) mod 100 = 0) = (e = 3 \<and> c = 24)"
  proof -
    have "(4 * c + e + 1 = 100) = (e = 3 \<and> c = 24)" using assms by arith
    then show ?thesis using assms mod_zero_top [of "4 * c + e + 1" 100] by simp
  qed
  have e400: "((100 * b + 4 * c + e + 1) mod 400 = 0) = (e = 3 \<and> c = 24 \<and> b = 3)"
  proof -
    have "(100 * b + 4 * c + e + 1 = 400) = (e = 3 \<and> c = 24 \<and> b = 3)"
      using assms by arith
    then show ?thesis using assms mod_zero_top [of "100 * b + 4 * c + e + 1" 400] by simp
  qed
  show ?thesis unfolding is_leap_def m4 m100 m400 e4 e100 e400 by auto
qed

lemma ord2ymd_sound:
  assumes "1 \<le> n" and "ord2ymd n = (y, m, d)"
  shows "ymd2ord y m d = n \<and> 1 \<le> y \<and> 1 \<le> m \<and> m \<le> 12 \<and> 1 \<le> d \<and> d \<le> 31"
proof -
  define k where "k = n - 1"
  define a where "a = k div 146097"
  define r1 where "r1 = k mod 146097"
  define b where "b = r1 div 36524"
  define r2 where "r2 = r1 mod 36524"
  define c where "c = r2 div 1461"
  define r3 where "r3 = r2 mod 1461"
  define e where "e = r3 div 365"
  define r4 where "r4 = r3 mod 365"
  define lp where "lp = (e = 3 \<and> (c \<noteq> 24 \<or> b = 3))"
  have k0: "0 \<le> k" using assms(1) by (simp add: k_def)
  have a0: "0 \<le> a" using k0 by (simp add: a_def pos_imp_zdiv_nonneg_iff)
  have r1b: "0 \<le> r1" "r1 < 146097" by (simp_all add: r1_def)
  have r2b: "0 \<le> r2" "r2 < 36524" by (simp_all add: r2_def)
  have r3b: "0 \<le> r3" "r3 < 1461" by (simp_all add: r3_def)
  have r4b: "0 \<le> r4" "r4 < 365" by (simp_all add: r4_def)
  have kk: "k = 146097 * a + r1" by (simp add: a_def r1_def)
  have r1r: "r1 = 36524 * b + r2" by (simp add: b_def r2_def)
  have r2r: "r2 = 1461 * c + r3" by (simp add: c_def r3_def)
  have r3r: "r3 = 365 * e + r4" by (simp add: e_def r4_def)
  have bb: "0 \<le> b" "b \<le> 4" using r1b r2b r1r by linarith+
  have cb: "0 \<le> c" "c \<le> 24" using r2b r3b r2r by linarith+
  have eb: "0 \<le> e" "e \<le> 4" using r3b r4b r3r by linarith+
  have ord: "ord2ymd n =
     (if e = 4 \<or> b = 4 then (a * 400 + 1 + b * 100 + c * 4 + e - 1, 12, 31)
      else (case month_day r4 lp of (mm, dd) \<Rightarrow> (a * 400 + 1 + b * 100 + c * 4 + e, mm, dd)))"
    unfolding ord2ymd_def Let_def k_def a_def r1_def b_def r2_def c_def r3_def
      e_def r4_def lp_def by simp
  show ?thesis
  proof (cases "b = 4")
    case True
    have r20: "r2 = 0" using True r1r r1b r2b by linarith
    hence z: "c = 0" "r3 = 0" "e = 0" "r4 = 0" by (simp_all add: c_def r3_def e_def r4_def)
    have yy: "y = 400 * a + 100 * 3 + 4 * 24 + 3 + 1" "m = 12" "d = 31"
      using assms(2) ord True z by simp_all
    have lpy: "is_leap y" unfolding yy by (subst is_leap_split) simp_all
    have "days_before_year y = 146097 * a + 36524 * 3 + 1461 * 24 + 365 * 3"
      unfolding yy by (subst days_before_year_split) simp_all
    then show ?thesis using lpy yy a0 kk r1r True z r20 k_def
      by (simp add: ymd2ord_def days_before_month_def nth_tables)
  next
    case b3: False
    hence b3': "b \<le> 3" using bb by simp
    show ?thesis
    proof (cases "e = 4")
      case True
      have z: "r4 = 0" using True r3r r3b r4b by linarith
      have yy: "y = 400 * a + 100 * b + 4 * c + 3 + 1" "m = 12" "d = 31"
        using assms(2) ord True by simp_all
      have c24: "c \<noteq> 24 \<or> b = 3" using True r3r r2r r1r r1b r2b z b3' bb by linarith
      have lpy: "is_leap y" unfolding yy using bb b3' cb c24 by (subst is_leap_split) simp_all
      have "days_before_year y = 146097 * a + 36524 * b + 1461 * c + 365 * 3"
        unfolding yy using bb b3' cb by (subst days_before_year_split) simp_all
      then show ?thesis using lpy yy a0 bb cb kk r1r r2r r3r True z k_def
        by (simp add: ymd2ord_def days_before_month_def nth_tables)
    next
      case False
      hence e3: "e \<le> 3" using eb by simp
      obtain mm dd where md: "month_day r4 lp = (mm, dd)" by (cases "month_day r4 lp")
      have yy: "y = 400 * a + 100 * b + 4 * c + e + 1" "m = mm" "d = dd"
        using assms(2) ord False b3 md by simp_all
      have lpy: "is_leap y = lp" unfolding yy lp_def
        by (rule is_leap_split [OF bb(1) b3' cb eb(1) e3])
      have dby: "days_before_year y = 146097 * a + 36524 * b + 1461 * c + 365 * e"
        unfolding yy by (rule days_before_year_split [OF bb(1) b3' cb eb(1) e3])
      have "r4 < (if lp then 366 else 365)" using r4b by simp
      from month_day_sound [OF r4b(1) this md]
      have s: "1 \<le> mm" "mm \<le> 12" "1 \<le> dd" "dd \<le> 31"
        "DAYS_BEFORE_MONTH ! nat mm + (if mm > 2 \<and> lp then 1 else 0) + dd = r4 + 1"
        by simp_all
      have "ymd2ord y m d = n"
        unfolding ymd2ord_def days_before_month_def lpy dby yy(2,3)
        using s(5) kk r1r r2r r3r k_def by simp
      moreover have "1 \<le> y" unfolding yy using a0 bb cb eb by simp
      ultimately show ?thesis using s yy by simp
    qed
  qed
qed

lemma ord2ymd_year_le:
  assumes "1 \<le> n" and "n \<le> 3652059" and "ord2ymd n = (y, m, d)"
  shows "y \<le> 9999"
proof -
  define k where "k = n - 1"
  define a where "a = k div 146097"
  define r1 where "r1 = k mod 146097"
  define b where "b = r1 div 36524"
  define r2 where "r2 = r1 mod 36524"
  define c where "c = r2 div 1461"
  define r3 where "r3 = r2 mod 1461"
  define e where "e = r3 div 365"
  define r4 where "r4 = r3 mod 365"
  have r1b: "0 \<le> r1" "r1 < 146097" by (simp_all add: r1_def)
  have r2b: "0 \<le> r2" "r2 < 36524" by (simp_all add: r2_def)
  have r3b: "0 \<le> r3" "r3 < 1461" by (simp_all add: r3_def)
  have r4b: "0 \<le> r4" "r4 < 365" by (simp_all add: r4_def)
  have kk: "k = 146097 * a + r1" by (simp add: a_def r1_def)
  have r1r: "r1 = 36524 * b + r2" by (simp add: b_def r2_def)
  have r2r: "r2 = 1461 * c + r3" by (simp add: c_def r3_def)
  have r3r: "r3 = 365 * e + r4" by (simp add: e_def r4_def)
  have bb: "0 \<le> b" "b \<le> 4" using r1b r2b r1r by linarith+
  have cb: "0 \<le> c" "c \<le> 24" using r2b r3b r2r by linarith+
  have eb: "0 \<le> e" "e \<le> 4" using r3b r4b r3r by linarith+
  have kle: "k \<le> 3652058" using assms(2) by (simp add: k_def)
  have "y \<le> a * 400 + 1 + b * 100 + c * 4 + e"
    using assms(3) unfolding ord2ymd_def Let_def k_def a_def r1_def b_def r2_def c_def r3_def
      e_def r4_def by (auto split: if_splits prod.splits)
  moreover have "a * 400 + 1 + b * 100 + c * 4 + e \<le> 9999 \<or> b = 4 \<or> e = 4"
    using kle kk r1r r2r r3r r4b bb cb eb by linarith
  moreover have "b = 4 \<Longrightarrow> y \<le> 9999"
  proof -
    assume b4: "b = 4"
    have "r2 = 0" using b4 r1r r1b r2b by linarith
    hence "c = 0" "e = 0" by (simp_all add: c_def r3_def e_def)
    moreover have "y = a * 400 + 1 + b * 100 + c * 4 + e - 1"
      using assms(3) b4 unfolding ord2ymd_def Let_def k_def a_def r1_def b_def r2_def c_def
        r3_def e_def r4_def by (auto split: if_splits prod.splits)
    ultimately show ?thesis using b4 kle kk r1r r2b by linarith
  qed
  moreover have "e = 4 \<Longrightarrow> b \<noteq> 4 \<Longrightarrow> y \<le> 9999"
  proof -
    assume e4: "e = 4" and b4: "b \<noteq> 4"
    have "y = a * 400 + 1 + b * 100 + c * 4 + e - 1"
      using assms(3) e4 unfolding ord2ymd_def Let_def k_def a_def r1_def b_def r2_def c_def
        r3_def e_def r4_def by (auto split: if_splits prod.splits)
    then show ?thesis using e4 b4 kle kk r1r r2r r3r r4b bb cb by linarith
  qed
  ultimately show ?thesis by linarith
qed

section \<open>The example environment, evaluated\<close>

lemma ord_ex: "ord2ymd 739556 = (2025, 11, 1)"
  by (simp add: ord2ymd_def month_day_def Let_def nth_tables)

lemma ymd_ex: "ymd2ord 2025 11 1 = 739556"
  by (simp add: ymd2ord_def days_before_year_def days_before_month_def is_leap_def nth_tables)

lemma parse_ex: "strptime_HM zs (ustr ''10:00'') = Some (10, 0)"
  by (simp add: strptime_HM_def regex_match_def hour_alts_def minute_alts_def is_digit_def
      digit_value_def int_of_digits_def ustr_def)

lemma fmt_ex: "fmt_d 4 2025 = ustr ''2025''" "fmt_d 2 4 = ustr ''04''" "fmt_d 2 30 = ustr ''30''"
  by (simp_all add: fmt_d_def zero_pad_def str_of_nat.simps ustr_def)

lemma off_ex: "format_offset 19800 = ustr ''+05:30''" "format_offset (- 14400) = ustr ''-04:00''"
  by (simp_all add: format_offset_def fmt_d_def zero_pad_def str_of_nat.simps ustr_def)

lemma hd_ex: "hours_difference 19800 0 = \<lparr>negative = True, mant = 6192449487634432, expo = - 50\<rparr>"
  by (simp add: hours_difference_def total_seconds_def int_true_div_def float_div_def round_ratio_def
      rne_div_def bit_length.simps Let_def)

lemma tds_ex: "time_diff_str \<lparr>negative = True, mant = 6192449487634432, expo = - 50\<rparr> = ustr ''-5.5h''"
  by (simp add: time_diff_str_def is_integer_def format_f_def rne_div_def rstrip_def zero_pad_def
      str_of_nat.simps ustr_def Let_def)

lemma ofs_ex: "of_seconds 63897683696 us tz
   = Inr \<lparr>year = 2025, month = 11, day = 1, hour = 12, minute = 34, second = 56,
          microsecond = us, fold_attr = False, tzinfo = tz\<rparr>"
  by (simp add: of_seconds_def MAXORDINAL_def ord_ex Let_def)

lemma now_ex: "now example_env (fixed_zone 19800)
   = Inr \<lparr>year = 2025, month = 11, day = 1, hour = 18, minute = 4, second = 56,
          microsecond = 789012, fold_attr = False, tzinfo = fixed_zone 19800\<rparr>"
  by (simp add: now_def example_env_def ofs_ex fromutc_def add_seconds_def to_seconds_def ymd_ex
      of_seconds_def MAXORDINAL_def ord_ex Let_def fixed_zone_def)

lemma strptime_25_61: "strptime_HM zs (ustr ''25:61'') = None"
  by (simp add: strptime_HM_def regex_match_def hour_alts_def minute_alts_def is_digit_def
      digit_value_def ustr_def)

lemma tzdb_ex:
  "tzdb example_env (ustr ''UTC'') = Inr (fixed_zone 0)"
  "tzdb example_env (ustr ''Asia/Kolkata'') = Inr (fixed_zone 19800)"
  "tzdb example_env (ustr ''Asia/Shanghai'') = Inr (fixed_zone 28800)"
  "tzdb example_env (ustr ''America/New_York'') = Inr new_york_autumn_2025"
  by (simp_all add: example_env_def example_tzdb_def ustr_def)

lemma time_result_kolkata_now:
  "time_result name
     \<lparr>year = 2025, month = 11, day = 1, hour = 18, minute = 4, second = 56,
      microsecond = 789012, fold_attr = False, tzinfo = fixed_zone 19800\<rparr>
   = Inr \<lparr>timezone = name, datetime = ustr ''2025-11-01T18:04:56+05:30'', is_dst = False\<rparr>"
  by (simp add: time_result_def isoformat_seconds_def utcoffset_def dst_def check_offset_def
      fixed_zone_def format_offset_def fmt_d_def zero_pad_def str_of_nat.simps ustr_def Let_def)

lemma gct: "get_current_time (example_env\<lparr>local_timezone := Some (ustr ''Asia/Kolkata'')\<rparr>)
             (ustr ''local'')
           = Inr \<lparr>timezone = ustr ''Asia/Kolkata'',
                  datetime = ustr ''2025-11-01T18:04:56+05:30'', is_dst = False\<rparr>"
proof -
  have n: "now (example_env\<lparr>local_timezone := Some (ustr ''Asia/Kolkata'')\<rparr>) (fixed_zone 19800)
           = now example_env (fixed_zone 19800)"
    by (simp add: now_def)
  have z: "get_zoneinfo (example_env\<lparr>local_timezone := Some (ustr ''Asia/Kolkata'')\<rparr>)
             (ustr ''Asia/Kolkata'') = Inr (fixed_zone 19800)"
    using tzdb_ex(2) by (simp add: get_zoneinfo_def)
  have l: "get_local_tz (example_env\<lparr>local_timezone := Some (ustr ''Asia/Kolkata'')\<rparr>)
             (Some (ustr ''Asia/Kolkata'')) = Inr (ustr ''Asia/Kolkata'')"
    by (simp add: get_local_tz_def ustr_def)
  show ?thesis
    by (simp add: get_current_time_def l z n now_ex time_result_kolkata_now)
qed

lemma kolkata_ne_utc: "ustr ''Asia/Kolkata'' \<noteq> ustr ''UTC''"
  by (simp add: ustr_def)

lemma fixed_zone_sel:
  "utcoff_wall (fixed_zone off) w f = off" "dst_wall (fixed_zone off) w f = 0"
  "utcoff_utc (fixed_zone off) u = off" "fold_utc (fixed_zone off) u = False"
  by (simp_all add: fixed_zone_def)

lemma parse_fullwidth_9_5:
  "strptime_HM (decimal_zeros example_env) [65305, 58, 65301] = Some (9, 5)"
  by (simp add: strptime_HM_def regex_match_def hour_alts_def minute_alts_def is_digit_def
      digit_value_def int_of_digits_def example_env_def)

lemma source_and_target_fullwidth_9_5:
  "source_and_target_time example_env (ustr ''Asia/Kolkata'') [65305, 58, 65301] (ustr ''UTC'')
   = Inr (\<lparr>year = 2025, month = 11, day = 1, hour = 9, minute = 5, second = 0,
           microsecond = 0, fold_attr = False, tzinfo = fixed_zone 19800\<rparr>,
          \<lparr>year = 2025, month = 11, day = 1, hour = 3, minute = 35, second = 0,
           microsecond = 0, fold_attr = False, tzinfo = fixed_zone 0\<rparr>)"
  by (simp add: source_and_target_time_def get_zoneinfo_def tzdb_ex parse_fullwidth_9_5 now_ex
      build_source_time_def astimezone_def kolkata_ne_utc utcoffset_def check_offset_def
      to_seconds_def ymd_ex add_seconds_def of_seconds_def MAXORDINAL_def ord_ex fromutc_def
      fixed_zone_sel Let_def)

lemma time_result_fullwidth_9_5:
  "time_result name
     \<lparr>year = 2025, month = 11, day = 1, hour = 9, minute = 5, second = 0,
      microsecond = 0, fold_attr = False, tzinfo = fixed_zone 19800\<rparr>
   = Inr \<lparr>timezone = name, datetime = ustr ''2025-11-01T09:05:00+05:30'', is_dst = False\<rparr>"
  "time_result name
     \<lparr>year = 2025, month = 11, day = 1, hour = 3, minute = 35, second = 0,
      microsecond = 0, fold_attr = False, tzinfo = fixed_zone 0\<rparr>
   = Inr \<lparr>timezone = name, datetime = ustr ''2025-11-01T03:35:00+00:00'', is_dst = False\<rparr>"
  by (simp_all add: time_result_def isoformat_seconds_def utcoffset_def dst_def check_offset_def
      fixed_zone_sel format_offset_def fmt_d_def zero_pad_def str_of_nat.simps ustr_def Let_def)

lemma convert_fullwidth_9_5:
  "convert_time example_env (ustr ''Asia/Kolkata'') [65305, 58, 65301] (ustr ''UTC'')
   = Inr \<lparr>source = \<lparr>timezone = ustr ''Asia/Kolkata'',
                     datetime = ustr ''2025-11-01T09:05:00+05:30'', is_dst = False\<rparr>,
          target = \<lparr>timezone = ustr ''UTC'',
                     datetime = ustr ''2025-11-01T03:35:00+00:00'', is_dst = False\<rparr>,
          time_difference = ustr ''-5.5h''\<rparr>"
  by (simp add: convert_time_def source_and_target_fullwidth_9_5 time_result_fullwidth_9_5
      utcoffset_def check_offset_def fixed_zone_sel or_zero_def hd_ex tds_ex)

lemma source_and_target_10_00:
  "source_and_target_time example_env (ustr ''Asia/Kolkata'') (ustr ''10:00'') (ustr ''UTC'')
   = Inr (\<lparr>year = 2025, month = 11, day = 1, hour = 10, minute = 0, second = 0,
           microsecond = 0, fold_attr = False, tzinfo = fixed_zone 19800\<rparr>,
          \<lparr>year = 2025, month = 11, day = 1, hour = 4, minute = 30, second = 0,
           microsecond = 0, fold_attr = False, tzinfo = fixed_zone 0\<rparr>)"
  by (simp add: source_and_target_time_def get_zoneinfo_def tzdb_ex parse_ex now_ex
      build_source_time_def astimezone_def kolkata_ne_utc utcoffset_def check_offset_def
      to_seconds_def ymd_ex add_seconds_def of_seconds_def MAXORDINAL_def ord_ex fromutc_def
      fixed_zone_sel Let_def)

lemma time_result_10_00:
  "time_result name
     \<lparr>year = 2025, month = 11, day = 1, hour = 10, minute = 0, second = 0,
      microsecond = 0, fold_attr = False, tzinfo = fixed_zone 19800\<rparr>
   = Inr \<lparr>timezone = name, datetime = ustr ''2025-11-01T10:00:00+05:30'', is_dst = False\<rparr>"
  "time_result name
     \<lparr>year = 2025, month = 11, day = 1, hour = 4, minute = 30, second = 0,
      microsecond = 0, fold_attr = False, tzinfo = fixed_zone 0\<rparr>
   = Inr \<lparr>timezone = name, datetime = ustr ''2025-11-01T04:30:00+00:00'', is_dst = False\<rparr>"
  by (simp_all add: time_result_def isoformat_seconds_def utcoffset_def dst_def check_offset_def
      fixed_zone_sel format_offset_def fmt_d_def zero_pad_def str_of_nat.simps ustr_def Let_def)

lemma convert_10_00:
  "convert_time example_env (ustr ''Asia/Kolkata'') (ustr ''10:00'') (ustr ''UTC'')
   = Inr \<lparr>source = \<lparr>timezone = ustr ''Asia/Kolkata'',
                     datetime = ustr ''2025-11-01T10:00:00+05:30'', is_dst = False\<rparr>,
          target = \<lparr>timezone = ustr ''UTC'',
                     datetime = ustr ''2025-11-01T04:30:00+00:00'', is_dst = False\<rparr>,
          time_difference = ustr ''-5.5h''\<rparr>"
  by (simp add: convert_time_def source_and_target_10_00 time_result_10_00
      utcoffset_def check_offset_def fixed_zone_sel or_zero_def hd_ex tds_ex)

lemma ord_1971: "ord2ymd 719528 = (1971, 1, 1)"
  by (simp add: ord2ymd_def month_day_def Let_def nth_tables)

lemma ymd_1971: "ymd2ord 1971 1 1 = 719528"
  by (simp add: ymd2ord_def days_before_year_def days_before_month_def is_leap_def nth_tables)

lemma now_monrovia:
  "now monrovia_env (fixed_zone (- 2670))
   = Inr \<lparr>year = 1971, month = 1, day = 1, hour = 11, minute = 15, second = 30,
          microsecond = 789012, fold_attr = False, tzinfo = fixed_zone (- 2670)\<rparr>"
  by (simp add: now_def monrovia_env_def example_env_def fromutc_def add_seconds_def
      to_seconds_def ymd_1971 of_seconds_def MAXORDINAL_def ord_1971 Let_def fixed_zone_sel)

lemma time_result_monrovia:
  "time_result name
     \<lparr>year = 1971, month = 1, day = 1, hour = 11, minute = 15, second = 30,
      microsecond = 789012, fold_attr = False, tzinfo = fixed_zone (- 2670)\<rparr>
   = Inr \<lparr>timezone = name, datetime = ustr ''1971-01-01T11:15:30-00:44:30'', is_dst = False\<rparr>"
  by (simp add: time_result_def isoformat_seconds_def utcoffset_def dst_def check_offset_def
      fixed_zone_sel format_offset_def fmt_d_def zero_pad_def str_of_nat.simps ustr_def Let_def)

lemma get_current_time_monrovia:
  "get_current_time monrovia_env (ustr ''Africa/Monrovia'')
   = Inr \<lparr>timezone = ustr ''Africa/Monrovia'',
          datetime = ustr ''1971-01-01T11:15:30-00:44:30'', is_dst = False\<rparr>"
proof -
  have n: "ustr ''Africa/Monrovia'' \<noteq> ustr ''local''" by (simp add: ustr_def)
  have z: "get_zoneinfo monrovia_env (ustr ''Africa/Monrovia'') = Inr (fixed_zone (- 2670))"
    by (simp add: get_zoneinfo_def monrovia_env_def)
  show ?thesis
    by (simp add: get_current_time_def n z now_monrovia time_result_monrovia)
qed

section \<open>Looking up a zone\<close>

lemma invalid_timezone_not_time_format:
  "ustr ''Invalid timezone: '' @ msg \<noteq> time_format_msg"
  by (simp add: ustr_def time_format_msg_def)

lemma bogus_zone_not_local: "ustr ''bogus/zone'' \<noteq> ustr ''local''"
  by (simp add: ustr_def)

text \<open>
  C8. A key that the timezone database does not know makes \<open>get_zoneinfo\<close> fail with the
  \<open>ValueError\<close> whose message is \<open>Invalid timezone: \<close> followed by the text of the lookup's
  own exception; nothing else escapes. \<open>get_current_time\<close> fails in the same way for every
  such name other than the alias \<open>local\<close>, \<open>bogus/zone\<close> among them.
\<close>

theorem unknown_zone_is_invalid_timezone:
  assumes "tzdb e name = Inl msg"
  shows "get_zoneinfo e name = Inl (ValueError (ustr ''Invalid timezone: '' @ msg))
     \<and> (name \<noteq> ustr ''local'' \<longrightarrow>
          get_current_time e name = Inl (ValueError (ustr ''Invalid timezone: '' @ msg)))
     \<and> (name = ustr ''bogus/zone'' \<longrightarrow>
          get_current_time e (ustr ''bogus/zone'')
          = Inl (ValueError (ustr ''Invalid timezone: '' @ msg)))"
  using assms bogus_zone_not_local by (auto simp: get_zoneinfo_def get_current_time_def)

theorem unknown_zone_is_invalid_timezone_witness:
  "tzdb example_env (ustr ''bogus/zone'')
     = Inl (39 # ustr ''No time zone found with key bogus/zone'' @ [39])
   \<and> get_zoneinfo example_env (ustr ''bogus/zone'')
     = Inl (ValueError (ustr ''Invalid timezone: '' @ 39
                        # ustr ''No time zone found with key bogus/zone'' @ [39]))
   \<and> get_current_time example_env (ustr ''bogus/zone'')
     = Inl (ValueError (ustr ''Invalid timezone: '' @ 39
                        # ustr ''No time zone found with key bogus/zone'' @ [39]))"
proof -
  have h: "tzdb example_env (ustr ''bogus/zone'')
           = Inl (39 # ustr ''No time zone found with key bogus/zone'' @ [39])"
    by (simp add: example_env_def example_tzdb_def ustr_def)
  from unknown_zone_is_invalid_timezone [OF h] h show ?thesis by simp
qed

section \<open>Parsing the time of day\<close>

lemma digit_value_less: "digit_value zeros c = Some v \<Longrightarrow> v < 10"
  by (auto simp: digit_value_def find_Some_iff split: if_splits option.splits)

lemma int_of_digits_1: "digit_value zeros c = Some v \<Longrightarrow> int_of_digits zeros [c] = int v"
  by (simp add: int_of_digits_def)

lemma int_of_digits_2:
  "digit_value zeros c = Some v \<Longrightarrow> digit_value zeros c' = Some v'
   \<Longrightarrow> int_of_digits zeros [c, c'] = 10 * int v + int v'"
  by (simp add: int_of_digits_def)

lemma ascii_digit_value: "48 \<le> c \<Longrightarrow> c < 58 \<Longrightarrow> digit_value zeros c = Some (c - 48)"
  by (simp add: digit_value_def)

lemma minute_alts_sound:
  assumes "(m, r) \<in> set (minute_alts zeros s)"
  shows "s = m @ r \<and> (length m = 1 \<or> length m = 2) \<and> list_all (is_digit zeros) m
         \<and> 0 \<le> int_of_digits zeros m \<and> int_of_digits zeros m \<le> 59"
proof (cases s)
  case Nil
  with assms show ?thesis by (simp add: minute_alts_def)
next
  case (Cons c1 s1)
  show ?thesis
  proof (cases "m = [c1]")
    case True
    with assms Cons have r: "r = s1" and d: "is_digit zeros c1"
      by (auto simp: minute_alts_def split: list.splits if_splits)
    from d obtain v where v: "digit_value zeros c1 = Some v" by (auto simp: is_digit_def)
    with digit_value_less [OF v] True r d Cons show ?thesis
      by (simp add: int_of_digits_1)
  next
    case False
    with assms Cons obtain c2 where s1: "s1 = c2 # r" and m: "m = [c1, c2]"
      and c1: "48 \<le> c1" "c1 \<le> 53" and d: "is_digit zeros c2"
      by (auto simp: minute_alts_def split: list.splits if_splits)
    from d obtain v where v: "digit_value zeros c2 = Some v" by (auto simp: is_digit_def)
    have v1: "digit_value zeros c1 = Some (c1 - 48)" using c1 by (simp add: ascii_digit_value)
    show ?thesis using digit_value_less [OF v] c1 d Cons s1 m
      by (simp add: int_of_digits_2 [OF v1 v] is_digit_def v1)
  qed
qed

lemma hour_alts_sound:
  assumes "(h, r) \<in> set (hour_alts zeros s)"
  shows "s = h @ r \<and> (length h = 1 \<or> length h = 2) \<and> list_all (is_digit zeros) h
         \<and> 0 \<le> int_of_digits zeros h \<and> int_of_digits zeros h \<le> 23"
proof (cases s)
  case Nil
  with assms show ?thesis by (simp add: hour_alts_def)
next
  case (Cons c1 s1)
  show ?thesis
  proof (cases "h = [c1]")
    case True
    with assms Cons have r: "r = s1" and d: "is_digit zeros c1"
      by (auto simp: hour_alts_def split: list.splits if_splits)
    from d obtain v where v: "digit_value zeros c1 = Some v" by (auto simp: is_digit_def)
    with digit_value_less [OF v] True r d Cons show ?thesis
      by (simp add: int_of_digits_1)
  next
    case False
    with assms Cons obtain c2 where s1: "s1 = c2 # r" and h: "h = [c1, c2]"
      and c: "c1 = 50 \<and> 48 \<le> c2 \<and> c2 \<le> 51 \<or> (c1 = 48 \<or> c1 = 49) \<and> is_digit zeros c2"
      by (auto simp: hour_alts_def split: list.splits if_splits)
    from c have c1: "48 \<le> c1" "c1 \<le> 50" by auto
    have v1: "digit_value zeros c1 = Some (c1 - 48)" using c1 by (simp add: ascii_digit_value)
    from c have d: "is_digit zeros c2" by (auto simp: is_digit_def ascii_digit_value)
    then obtain v where v: "digit_value zeros c2 = Some v" by (auto simp: is_digit_def)
    have "c1 = 50 \<longrightarrow> v \<le> 3" using c v by (auto simp: ascii_digit_value)
    hence "10 * int (c1 - 48) + int v \<le> 23" using digit_value_less [OF v] c1 by auto
    then show ?thesis using c1 d Cons s1 h
      by (simp add: int_of_digits_2 [OF v1 v] is_digit_def v1)
  qed
qed

lemma first_match_Some:
  "first_match f xs = Some y \<Longrightarrow> \<exists>x \<in> set xs. f x = Some y"
  by (induction xs) (auto split: option.splits)

lemma regex_match_sound:
  assumes "regex_match zeros s = Some (h, m, rest)"
  shows "s = h @ [58] @ m @ rest \<and> (length h = 1 \<or> length h = 2)
         \<and> (length m = 1 \<or> length m = 2)
         \<and> list_all (is_digit zeros) h \<and> list_all (is_digit zeros) m
         \<and> 0 \<le> int_of_digits zeros h \<and> int_of_digits zeros h \<le> 23
         \<and> 0 \<le> int_of_digits zeros m \<and> int_of_digits zeros m \<le> 59"
proof -
  from assms obtain h' r where hr: "(h', r) \<in> set (hour_alts zeros s)"
    and f: "(case r of
              c # r' \<Rightarrow> if c = 58
                         then first_match (\<lambda>(m, r''). Some (h', m, r'')) (minute_alts zeros r')
                         else None
            | [] \<Rightarrow> None) = Some (h, m, rest)"
    unfolding regex_match_def by (auto dest!: first_match_Some)
  from f obtain r' where r: "r = 58 # r'"
    and g: "first_match (\<lambda>(m, r''). Some (h', m, r'')) (minute_alts zeros r') = Some (h, m, rest)"
    by (auto split: list.splits if_splits)
  from g have hh: "h' = h" and mr: "(m, rest) \<in> set (minute_alts zeros r')"
    by (auto dest!: first_match_Some)
  show ?thesis
    using hour_alts_sound [OF hr] minute_alts_sound [OF mr] r hh by simp
qed

lemma strptime_HM_range:
  assumes "strptime_HM zeros s = Some (h, m)"
  shows "0 \<le> h \<and> h \<le> 23 \<and> 0 \<le> m \<and> m \<le> 59"
proof -
  from assms obtain hs ms where rm: "regex_match zeros s = Some (hs, ms, [])"
    and h: "h = int_of_digits zeros hs" and m: "m = int_of_digits zeros ms"
    by (auto simp: strptime_HM_def split: option.splits if_splits)
  from regex_match_sound [OF rm] show ?thesis unfolding h m by simp
qed

lemma decimal_digit_is_digit: "decimal_digit zeros c = is_digit zeros c"
proof -
  have "(find (\<lambda>z. z \<le> c \<and> c < z + 10) zeros \<noteq> None)
        = list_ex (\<lambda>z. z \<le> c \<and> c < z + 10) zeros"
    by (auto simp: list_ex_iff find_None_iff)
  then show ?thesis
    by (auto simp: decimal_digit_def is_digit_def digit_value_def ascii_digit_def
        split: option.splits)
qed

lemma hour_alts_iff:
  "((h, r) \<in> set (hour_alts zeros s)) = (s = h @ r \<and> hour_text zeros h)"
  by (auto simp: hour_alts_def hour_text_def decimal_digit_is_digit
      split: list.splits if_splits)

lemma minute_alts_iff:
  "((m, r) \<in> set (minute_alts zeros s)) = (s = m @ r \<and> minute_text zeros m)"
  by (auto simp: minute_alts_def minute_text_def decimal_digit_is_digit
      split: list.splits if_splits)

lemma hour_text_length: "hour_text zeros h \<Longrightarrow> length h = 1 \<or> length h = 2"
  by (auto simp: hour_text_def split: list.splits)

lemma strptime_HM_parser:
  assumes "strptime_HM zeros s = Some p"
  shows "parser_hhmm zeros s"
proof -
  from assms obtain hs ms where rm: "regex_match zeros s = Some (hs, ms, [])"
    by (auto simp: strptime_HM_def split: option.splits if_splits)
  then obtain h' r where hr: "(h', r) \<in> set (hour_alts zeros s)"
    and f: "(case r of
              c # r' \<Rightarrow> if c = 58
                         then first_match (\<lambda>(m, r''). Some (h', m, r'')) (minute_alts zeros r')
                         else None
            | [] \<Rightarrow> None) = Some (hs, ms, [])"
    unfolding regex_match_def by (auto dest!: first_match_Some)
  from f obtain r' where r: "r = 58 # r'"
    and g: "first_match (\<lambda>(m, r''). Some (h', m, r'')) (minute_alts zeros r') = Some (hs, ms, [])"
    by (auto split: list.splits if_splits)
  from g have hh: "h' = hs" and mr: "(ms, []) \<in> set (minute_alts zeros r')"
    by (auto dest!: first_match_Some)
  from hr r hh have s: "s = hs @ 58 # r'" and ht: "hour_text zeros hs"
    by (simp_all add: hour_alts_iff)
  from mr have mt: "minute_text zeros r'" by (simp add: minute_alts_iff)
  have "hhmm_at zeros (length hs) s" using s ht mt by (simp add: hhmm_at_def)
  then show ?thesis using hour_text_length [OF ht] by (auto simp: parser_hhmm_def)
qed

lemma parser_strptime_HM:
  assumes "parser_hhmm zeros s"
  shows "strptime_HM zeros s \<noteq> None"
proof -
  from assms obtain h m where s: "s = h @ 58 # m" and ht: "hour_text zeros h"
    and mt: "minute_text zeros m"
    by (auto simp: parser_hhmm_def hhmm_at_def split: list.splits)
       (metis append_take_drop_id)+
  show ?thesis
    using ht mt unfolding s
    by (auto simp: hour_text_def minute_text_def strptime_HM_def regex_match_def hour_alts_def
        minute_alts_def decimal_digit_is_digit split: list.splits if_splits)
qed

lemma strict_field_hour: "strict_field 23 h \<Longrightarrow> hour_text zeros h"
  by (cases h rule: list.exhaust; cases "tl h" rule: list.exhaust; cases "tl (tl h)")
     (auto simp: strict_field_def hour_text_def decimal_digit_def ascii_digit_def ascii_value_def)

lemma strict_field_minute: "strict_field 59 m \<Longrightarrow> minute_text zeros m"
  by (cases m rule: list.exhaust; cases "tl m" rule: list.exhaust; cases "tl (tl m)")
     (auto simp: strict_field_def minute_text_def decimal_digit_def ascii_digit_def
        ascii_value_def)

lemma strict_parser:
  assumes "strict_hhmm s"
  shows "parser_hhmm zeros s"
proof -
  define h where "h = takeWhile (\<lambda>c. c \<noteq> 58) s"
  from assms obtain c m where d: "dropWhile (\<lambda>c. c \<noteq> 58) s = c # m"
    and sh: "strict_field 23 h" and sm: "strict_field 59 m"
    by (auto simp: strict_hhmm_def h_def split: list.splits)
  have c: "c = 58" using hd_dropWhile [of "\<lambda>c. c \<noteq> 58" s] d by simp
  have s: "s = h @ 58 # m" using takeWhile_dropWhile_id [of "\<lambda>c. c \<noteq> 58" s] d c
    by (simp add: h_def)
  have "hhmm_at zeros (length h) s"
    using strict_field_hour [OF sh] strict_field_minute [OF sm] by (simp add: hhmm_at_def s)
  moreover have "length h = 1 \<or> length h = 2" using sh by (simp add: strict_field_def)
  ultimately show ?thesis by (auto simp: parser_hhmm_def)
qed

lemma hour_text_ascii:
  "hour_text zeros h \<Longrightarrow> list_all ascii_digit h \<Longrightarrow> strict_field 23 h"
  by (auto simp: hour_text_def strict_field_def ascii_digit_def ascii_value_def
      split: list.splits)

lemma minute_text_ascii:
  "minute_text zeros m \<Longrightarrow> list_all ascii_digit m \<Longrightarrow> strict_field 59 m"
  by (auto simp: minute_text_def strict_field_def ascii_digit_def ascii_value_def
      split: list.splits)

lemma hour_text_digits: "hour_text zeros h \<Longrightarrow> list_all (decimal_digit zeros) h"
  by (auto simp: hour_text_def decimal_digit_def ascii_digit_def split: list.splits)

lemma minute_text_digits: "minute_text zeros m \<Longrightarrow> list_all (decimal_digit zeros) m"
  by (auto simp: minute_text_def decimal_digit_def ascii_digit_def split: list.splits)

lemma parser_not_strict:
  assumes "parser_hhmm zeros s" and "\<not> strict_hhmm s"
  shows "list_ex (\<lambda>c. decimal_digit zeros c \<and> \<not> ascii_digit c) s"
proof (rule ccontr)
  assume n: "\<not> list_ex (\<lambda>c. decimal_digit zeros c \<and> \<not> ascii_digit c) s"
  from assms(1) obtain h m where s: "s = h @ 58 # m" and ht: "hour_text zeros h"
    and mt: "minute_text zeros m"
    by (auto simp: parser_hhmm_def hhmm_at_def split: list.splits)
       (metis append_take_drop_id)+
  have ah: "list_all ascii_digit h" using n hour_text_digits [OF ht]
    by (auto simp: s list_ex_iff list_all_iff)
  have am: "list_all ascii_digit m" using n minute_text_digits [OF mt]
    by (auto simp: s list_ex_iff list_all_iff)
  have nc: "\<forall>c\<in>set h. c \<noteq> 58" using ah by (auto simp: list_all_iff ascii_digit_def)
  have t: "takeWhile (\<lambda>c. c \<noteq> 58) s = h" unfolding s using nc
    by (simp add: takeWhile_append2)
  have d: "dropWhile (\<lambda>c. c \<noteq> 58) s = 58 # m" unfolding s using nc
    by (simp add: dropWhile_append2)
  have "strict_hhmm s"
    using hour_text_ascii [OF ht ah] minute_text_ascii [OF mt am]
    by (simp add: strict_hhmm_def t d)
  with assms(2) show False by simp
qed

section \<open>Errors of the date-time arithmetic\<close>

lemma of_seconds_error: "of_seconds secs us tz = Inl err \<Longrightarrow> datetime_error err"
  by (auto simp: of_seconds_def datetime_error_def Let_def split: if_splits prod.splits)

lemma add_seconds_error: "add_seconds dt delta = Inl err \<Longrightarrow> datetime_error err"
  by (auto simp: add_seconds_def dest: of_seconds_error)

lemma fromutc_error: "fromutc tz dt = Inl err \<Longrightarrow> datetime_error err"
  by (auto simp: fromutc_def Let_def split: sum.splits dest: add_seconds_error)

lemma now_error: "now e tz = Inl err \<Longrightarrow> datetime_error err"
  by (auto simp: now_def split: sum.splits dest: of_seconds_error fromutc_error)

lemma check_offset_error: "check_offset off = Inl err \<Longrightarrow> datetime_error err"
  by (auto simp: check_offset_def datetime_error_def split: if_splits)

lemma utcoffset_error: "utcoffset dt = Inl err \<Longrightarrow> datetime_error err"
  by (auto simp: utcoffset_def dest: check_offset_error)

lemma dst_error: "dst dt = Inl err \<Longrightarrow> datetime_error err"
  by (auto simp: dst_def dest: check_offset_error)

lemma astimezone_error: "astimezone dt same tz = Inl err \<Longrightarrow> datetime_error err"
  by (auto simp: astimezone_def split: if_splits sum.splits
      dest: utcoffset_error add_seconds_error fromutc_error)

lemma isoformat_seconds_error: "isoformat_seconds dt = Inl err \<Longrightarrow> datetime_error err"
  by (auto simp: isoformat_seconds_def split: sum.splits dest: utcoffset_error)

lemma time_result_error: "time_result name t = Inl err \<Longrightarrow> datetime_error err"
  by (auto simp: time_result_def split: sum.splits dest: isoformat_seconds_error dst_error)

lemma datetime_error_not_time_format: "datetime_error err \<Longrightarrow> err \<noteq> ValueError time_format_msg"
  by (auto simp: datetime_error_def offset_msg_def time_format_msg_def ustr_def)

lemma convert_time_parsed_error:
  assumes "tzdb e source_tz = Inr zs" and "tzdb e target_tz = Inr zt"
    and "strptime_HM (decimal_zeros e) time_str = Some p"
    and "convert_time e source_tz time_str target_tz = Inl err"
  shows "datetime_error err"
proof (cases "source_and_target_time e source_tz time_str target_tz")
  case (Inl x)
  with assms(4) have x: "x = err" by (simp add: convert_time_def)
  from Inl assms(1,2,3) show ?thesis unfolding x
    by (auto simp: source_and_target_time_def get_zoneinfo_def Let_def split: sum.splits
        dest: now_error astimezone_error)
next
  case (Inr pr)
  obtain st tt where pr: "pr = (st, tt)" by (cases pr)
  from assms(4) show ?thesis unfolding convert_time_def Inr pr
    by (auto simp: Let_def split: sum.splits dest: utcoffset_error time_result_error)
qed

section \<open>Results of the date-time arithmetic\<close>

lemma of_seconds_Inr:
  assumes "of_seconds secs us tz = Inr dt"
  shows "valid_fields dt \<and> to_seconds dt = secs \<and> microsecond dt = us \<and> tzinfo dt = tz
         \<and> \<not> fold_attr dt"
proof -
  define days where "days = secs div 86400"
  define r where "r = secs mod 86400"
  obtain y m d where o: "ord2ymd days = (y, m, d)" by (cases "ord2ymd days") auto
  from assms have rng: "0 < days" "days \<le> 3652059"
    and dt: "dt = \<lparr>year = y, month = m, day = d, hour = r div 3600,
                    minute = r mod 3600 div 60, second = r mod 60,
                    microsecond = us, fold_attr = False, tzinfo = tz\<rparr>"
    using o unfolding of_seconds_def Let_def days_def [symmetric] r_def [symmetric] MAXORDINAL_def
    by (auto split: if_splits)
  have r: "0 \<le> r" "r < 86400" by (simp_all add: r_def)
  from rng have "1 \<le> days" by simp
  from ord2ymd_sound [OF this o] have s: "ymd2ord y m d = days" "1 \<le> y" "1 \<le> m" "m \<le> 12"
    "1 \<le> d" "d \<le> 31" by simp_all
  have yle: "y \<le> 9999" using ord2ymd_year_le [OF \<open>1 \<le> days\<close> rng(2) o] .
  have h: "r div 3600 \<le> 23" "0 \<le> r div 3600" using r by linarith+
  have mi: "r mod 3600 div 60 \<le> 59" "0 \<le> r mod 3600 div 60" by linarith+
  have se: "r mod 60 \<le> 59" "0 \<le> r mod 60" by linarith+
  have rr: "r div 3600 * 3600 + r mod 3600 div 60 * 60 + r mod 60 = r"
  proof -
    have "r mod 60 = r mod 3600 mod 60" by (simp add: mod_mod_cancel)
    then show ?thesis by (simp add: algebra_simps)
  qed
  have "to_seconds dt = days * 86400 + r" using s(1) rr by (simp add: dt to_seconds_def)
  also have "\<dots> = secs" by (simp add: days_def r_def)
  finally show ?thesis using s yle h mi se by (simp add: dt valid_fields_def)
qed

lemma add_seconds_Inr:
  assumes "add_seconds dt delta = Inr r"
  shows "valid_fields r \<and> to_seconds r = to_seconds dt + delta \<and> microsecond r = microsecond dt
         \<and> tzinfo r = tzinfo dt \<and> \<not> fold_attr r"
  using of_seconds_Inr [OF assms [unfolded add_seconds_def]] .

lemma fromutc_Inr:
  assumes "fromutc tz dt = Inr r"
  shows "valid_fields r \<and> to_seconds r = to_seconds dt + utcoff_utc tz (to_seconds dt)
         \<and> microsecond r = microsecond dt \<and> tzinfo r = tzinfo dt
         \<and> fold_attr r = fold_utc tz (to_seconds dt)"
proof -
  from assms obtain r0 where a: "add_seconds dt (utcoff_utc tz (to_seconds dt)) = Inr r0"
    and r: "r = r0\<lparr>fold_attr := fold_utc tz (to_seconds dt)\<rparr>"
    by (auto simp: fromutc_def Let_def split: sum.splits)
  from add_seconds_Inr [OF a] show ?thesis
    by (simp add: r valid_fields_def to_seconds_def)
qed

lemma now_Inr:
  assumes "now e tz = Inr nw"
  shows "valid_fields nw \<and> to_seconds nw = utcnow e + utcoff_utc tz (utcnow e)
         \<and> microsecond nw = utcnow_us e \<and> tzinfo nw = tz
         \<and> fold_attr nw = fold_utc tz (utcnow e)"
proof -
  from assms obtain u where u: "of_seconds (utcnow e) (utcnow_us e) tz = Inr u"
    and f: "fromutc tz u = Inr nw"
    by (auto simp: now_def split: sum.splits)
  from of_seconds_Inr [OF u] fromutc_Inr [OF f] show ?thesis by simp
qed

lemma astimezone_Inr:
  assumes "astimezone dt same tz = Inr r"
  shows "(same \<longrightarrow> r = dt)
       \<and> (\<not> same \<longrightarrow>
            (\<exists>off. utcoffset dt = Inr off
               \<and> to_seconds r = to_seconds dt - off + utcoff_utc tz (to_seconds dt - off)
               \<and> fold_attr r = fold_utc tz (to_seconds dt - off))
            \<and> valid_fields r \<and> tzinfo r = tz \<and> microsecond r = microsecond dt)"
proof (cases same)
  case True
  with assms show ?thesis by (simp add: astimezone_def)
next
  case False
  with assms obtain off utc where off: "utcoffset dt = Inr off"
    and utc: "add_seconds dt (- off) = Inr utc"
    and f: "fromutc tz (utc\<lparr>tzinfo := tz\<rparr>) = Inr r"
    by (auto simp: astimezone_def split: sum.splits)
  have t: "to_seconds (utc\<lparr>tzinfo := tz\<rparr>) = to_seconds utc" by (simp add: to_seconds_def)
  from add_seconds_Inr [OF utc] fromutc_Inr [OF f] off False show ?thesis
    by (simp add: t)
qed

lemma source_and_target_time_Inr:
  assumes "source_and_target_time e a s b = Inr (st, tt)"
  shows "\<exists>zs zt p nw. tzdb e a = Inr zs \<and> tzdb e b = Inr zt
           \<and> strptime_HM (decimal_zeros e) s = Some p \<and> now e zs = Inr nw
           \<and> st = build_source_time nw p zs \<and> astimezone st (a = b) zt = Inr tt"
  using assms
  by (auto simp: source_and_target_time_def get_zoneinfo_def Let_def
      split: sum.splits option.splits)

lemma valid_build_source_time:
  assumes "valid_fields nw" and "strptime_HM zeros s = Some p"
  shows "valid_fields (build_source_time nw p zs)"
proof -
  from assms(2) have "strptime_HM zeros s = Some (fst p, snd p)" by simp
  from strptime_HM_range [OF this] assms(1) show ?thesis
    by (simp add: build_source_time_def valid_fields_def)
qed

lemma source_and_target_time_valid:
  assumes "source_and_target_time e a s b = Inr (st, tt)"
  shows "valid_fields st \<and> valid_fields tt"
proof -
  from source_and_target_time_Inr [OF assms] obtain zs zt p nw where
    p: "strptime_HM (decimal_zeros e) s = Some p" and nw: "now e zs = Inr nw"
    and st: "st = build_source_time nw p zs" and tt: "astimezone st (a = b) zt = Inr tt"
    by blast
  have v: "valid_fields st" unfolding st using now_Inr [OF nw] p
    by (simp add: valid_build_source_time)
  from astimezone_Inr [OF tt] v show ?thesis by (cases "a = b") auto
qed

lemma of_seconds_fields:
  assumes "of_seconds secs us tz = Inr dt"
  shows "(year dt, month dt, day dt) = date_at secs
         \<and> (hour dt, minute dt, second dt) = time_of_day_at secs"
proof -
  obtain y m d where o: "ord2ymd (secs div 86400) = (y, m, d)"
    by (cases "ord2ymd (secs div 86400)") auto
  from assms have dt: "dt = \<lparr>year = y, month = m, day = d, hour = secs mod 86400 div 3600,
                    minute = secs mod 86400 mod 3600 div 60, second = secs mod 86400 mod 60,
                    microsecond = us, fold_attr = False, tzinfo = tz\<rparr>"
    unfolding of_seconds_def Let_def o by (simp split: if_splits)
  have "secs mod 86400 mod 3600 = secs mod 3600" "secs mod 86400 mod 60 = secs mod 60"
    by (simp_all add: mod_mod_cancel)
  then show ?thesis by (simp add: dt date_at_def time_of_day_at_def o)
qed

lemma to_seconds_update:
  "to_seconds (dt\<lparr>tzinfo := z\<rparr>) = to_seconds dt"
  "to_seconds (dt\<lparr>fold_attr := f\<rparr>) = to_seconds dt"
  by (simp_all add: to_seconds_def)

lemma now_fields:
  assumes "now e tz = Inr nw"
  shows "(year nw, month nw, day nw) = date_at (wall_time_at tz (utcnow e))
         \<and> (hour nw, minute nw, second nw) = time_of_day_at (wall_time_at tz (utcnow e))"
proof -
  from assms obtain u r where u: "of_seconds (utcnow e) (utcnow_us e) tz = Inr u"
    and a: "add_seconds u (utcoff_utc tz (to_seconds u)) = Inr r"
    and n: "nw = r\<lparr>fold_attr := fold_utc tz (to_seconds u)\<rparr>"
    by (auto simp: now_def fromutc_def Let_def split: sum.splits)
  from of_seconds_Inr [OF u] have t: "to_seconds u = utcnow e" by simp
  from of_seconds_fields [OF a [unfolded add_seconds_def]] show ?thesis
    by (simp add: n t wall_time_at_def)
qed

lemma astimezone_fields:
  assumes "astimezone dt False tz = Inr r"
  shows "to_seconds r = wall_time_at tz (utc_instant dt)
         \<and> (year r, month r, day r) = date_at (wall_time_at tz (utc_instant dt))
         \<and> (hour r, minute r, second r) = time_of_day_at (wall_time_at tz (utc_instant dt))
         \<and> microsecond r = microsecond dt \<and> tzinfo r = tz
         \<and> fold_attr r = fold_utc tz (utc_instant dt)"
proof -
  from assms obtain off utc r0 where off: "utcoffset dt = Inr off"
    and utc: "add_seconds dt (- off) = Inr utc"
    and a: "add_seconds (utc\<lparr>tzinfo := tz\<rparr>)
              (utcoff_utc tz (to_seconds (utc\<lparr>tzinfo := tz\<rparr>))) = Inr r0"
    and r: "r = r0\<lparr>fold_attr := fold_utc tz (to_seconds (utc\<lparr>tzinfo := tz\<rparr>))\<rparr>"
    by (auto simp: astimezone_def fromutc_def Let_def split: sum.splits)
  from off have o: "off = utcoff_wall (tzinfo dt) (to_seconds dt) (fold_attr dt)"
    by (auto simp: utcoffset_def check_offset_def split: if_splits)
  have t: "to_seconds utc = utc_instant dt"
    using add_seconds_Inr [OF utc] by (simp add: to_seconds_update utc_instant_def o)
  have m: "microsecond (utc\<lparr>tzinfo := tz\<rparr>) = microsecond dt"
    using add_seconds_Inr [OF utc] by simp
  from of_seconds_fields [OF a [unfolded add_seconds_def]]
    of_seconds_Inr [OF a [unfolded add_seconds_def]]
  show ?thesis by (simp add: r t m wall_time_at_def to_seconds_update)
qed

section \<open>The text of numbers, offsets and date-times\<close>

lemma str_of_nat_1: "n < 10 \<Longrightarrow> str_of_nat n = [48 + n]"
  by (simp add: str_of_nat.simps)

lemma str_of_nat_2: "10 \<le> n \<Longrightarrow> n < 100 \<Longrightarrow> str_of_nat n = [48 + n div 10, 48 + n mod 10]"
  by (subst str_of_nat.simps) (simp add: str_of_nat_1)

lemma str_of_nat_3:
  "100 \<le> n \<Longrightarrow> n < 1000 \<Longrightarrow> str_of_nat n = [48 + n div 100, 48 + n div 10 mod 10, 48 + n mod 10]"
  by (subst str_of_nat.simps) (simp add: str_of_nat_2 div_mult2_eq [symmetric])

lemma str_of_nat_4:
  "1000 \<le> n \<Longrightarrow> n < 10000 \<Longrightarrow>
   str_of_nat n = [48 + n div 1000, 48 + n div 100 mod 10, 48 + n div 10 mod 10, 48 + n mod 10]"
  by (subst str_of_nat.simps) (simp add: str_of_nat_3 div_mult2_eq [symmetric])

lemma fmt_d_2:
  assumes "0 \<le> x" and "x < 100"
  shows "fmt_d 2 x = digits2 x"
proof (cases "nat x < 10")
  case True
  then show ?thesis using assms by (simp add: fmt_d_def zero_pad_def str_of_nat_1 digits2_def)
next
  case False
  then show ?thesis using assms by (simp add: fmt_d_def zero_pad_def str_of_nat_2 digits2_def)
qed

lemma fmt_d_4:
  assumes "0 \<le> x" and "x < 10000"
  shows "fmt_d 4 x = digits4 x"
proof -
  consider "nat x < 10" | "10 \<le> nat x" "nat x < 100" | "100 \<le> nat x" "nat x < 1000"
    | "1000 \<le> nat x" "nat x < 10000" using assms by linarith
  then show ?thesis
  proof cases
    case 1 then show ?thesis using assms
      by (simp add: fmt_d_def zero_pad_def str_of_nat_1 numeral_3_eq_3 digits4_def)
  next
    case 2 then show ?thesis using assms
      by (simp add: fmt_d_def zero_pad_def str_of_nat_2 numeral_2_eq_2 digits4_def)
  next
    case 3 then show ?thesis using assms
      by (simp add: fmt_d_def zero_pad_def str_of_nat_3 digits4_def)
  next
    case 4 then show ?thesis using assms
      by (simp add: fmt_d_def zero_pad_def str_of_nat_4 digits4_def)
  qed
qed

lemma nat_div_10_less: "x < 100 \<Longrightarrow> nat x div 10 < 10"
  by linarith

lemma matches_digits2: "0 \<le> x \<Longrightarrow> x < 100 \<Longrightarrow> matches ''dd'' (digits2 x)"
  by (simp add: digits2_def nat_div_10_less)

lemma format_offset_text:
  assumes "- 86400 < off" and "off < 86400"
  shows "format_offset off
         = (if off < 0 then ustr ''-'' else ustr ''+'')
           @ digits2 (\<bar>off\<bar> div 3600) @ ustr '':'' @ digits2 (\<bar>off\<bar> mod 3600 div 60)
           @ (if \<bar>off\<bar> mod 60 \<noteq> 0 then ustr '':'' @ digits2 (\<bar>off\<bar> mod 60) else [])"
proof -
  define a where "a = \<bar>off\<bar>"
  have a: "0 \<le> a" "a < 86400" using assms by (simp_all add: a_def)
  have hh: "0 \<le> a div 3600" "a div 3600 < 100" using a by linarith+
  have mm: "0 \<le> a mod 3600 div 60" "a mod 3600 div 60 < 100" using a by linarith+
  have ss: "0 \<le> a mod 60" "a mod 60 < 100" using a by linarith+
  show ?thesis
    unfolding format_offset_def Let_def a_def [symmetric]
    by (simp add: fmt_d_2 [OF hh] fmt_d_2 [OF mm] fmt_d_2 [OF ss])
qed

lemma isoformat_seconds_text:
  assumes "valid_fields dt" and "isoformat_seconds dt = Inr s"
  shows "\<exists>off. utcoffset dt = Inr off \<and> - 86400 < off \<and> off < 86400
           \<and> s = iso_text dt off
                 @ (if \<bar>off\<bar> mod 60 \<noteq> 0 then ustr '':'' @ digits2 (\<bar>off\<bar> mod 60) else [])"
proof -
  from assms(2) obtain off where off: "utcoffset dt = Inr off"
    and s: "s = fmt_d 4 (year dt) @ ustr ''-'' @ fmt_d 2 (month dt) @ ustr ''-''
                 @ fmt_d 2 (day dt) @ ustr ''T'' @ fmt_d 2 (hour dt) @ ustr '':''
                 @ fmt_d 2 (minute dt) @ ustr '':'' @ fmt_d 2 (second dt) @ format_offset off"
    by (auto simp: isoformat_seconds_def split: sum.splits)
  from off have r: "- 86400 < off" "off < 86400"
    by (auto simp: utcoffset_def check_offset_def split: if_splits)
  have v: "0 \<le> year dt" "year dt < 10000" "0 \<le> month dt" "month dt < 100"
    "0 \<le> day dt" "day dt < 100" "0 \<le> hour dt" "hour dt < 100"
    "0 \<le> minute dt" "minute dt < 100" "0 \<le> second dt" "second dt < 100"
    using assms(1) by (simp_all add: valid_fields_def)
  have "s = iso_text dt off
            @ (if \<bar>off\<bar> mod 60 \<noteq> 0 then ustr '':'' @ digits2 (\<bar>off\<bar> mod 60) else [])"
    unfolding s iso_text_def format_offset_text [OF r]
    using v by (simp add: fmt_d_2 fmt_d_4)
  with off r show ?thesis by blast
qed

lemma take_drop_append_length:
  "length xs = n \<Longrightarrow> take n (xs @ ys) = xs \<and> drop n (xs @ ys) = ys"
  by simp

lemma matches_digits4: "0 \<le> x \<Longrightarrow> x < 10000 \<Longrightarrow> matches ''dddd'' (digits4 x)"
proof -
  assume a: "0 \<le> x" "x < 10000"
  have "nat x div 1000 < 10" using a by linarith
  then show ?thesis by (simp add: digits4_def)
qed

lemma matches_append:
  "length p = length s \<Longrightarrow> matches (p @ q) (s @ t) = (matches p s \<and> matches q t)"
  by (induction p s rule: matches.induct) auto

lemma matches_date_time:
  assumes "valid_fields dt"
  shows "matches ''dddd-dd-ddTdd:dd:dd''
           (digits4 (year dt) @ ustr ''-'' @ digits2 (month dt) @ ustr ''-'' @ digits2 (day dt)
            @ ustr ''T'' @ digits2 (hour dt) @ ustr '':'' @ digits2 (minute dt) @ ustr '':''
            @ digits2 (second dt))"
proof -
  have v: "0 \<le> year dt" "year dt < 10000" "0 \<le> month dt" "month dt < 100"
    "0 \<le> day dt" "day dt < 100" "0 \<le> hour dt" "hour dt < 100"
    "0 \<le> minute dt" "minute dt < 100" "0 \<le> second dt" "second dt < 100"
    using assms by (simp_all add: valid_fields_def)
  have y: "nat (year dt) div 1000 < 10" using v by linarith
  show ?thesis using v y by (simp add: digits2_def digits4_def ustr_def nat_div_10_less)
qed

lemma matches_offset:
  assumes "- 86400 < off" and "off < 86400"
  shows "matches ''dd:dd'' (digits2 (\<bar>off\<bar> div 3600) @ ustr '':'' @ digits2 (\<bar>off\<bar> mod 3600 div 60))"
proof -
  define a where "a = \<bar>off\<bar>"
  have a: "0 \<le> a" "a < 86400" using assms by (simp_all add: a_def)
  have hh: "nat (a div 3600) div 10 < 10" using a by linarith
  have mm: "nat (a mod 3600 div 60) div 10 < 10" using a by linarith
  show ?thesis unfolding a_def [symmetric] using hh mm by (simp add: digits2_def ustr_def)
qed

lemma iso_text_shape:
  assumes "valid_fields dt" and "- 86400 < off" and "off < 86400"
  shows "iso_seconds_with_offset (iso_text dt off)"
proof -
  let ?L = "digits4 (year dt) @ ustr ''-'' @ digits2 (month dt) @ ustr ''-'' @ digits2 (day dt)
            @ ustr ''T'' @ digits2 (hour dt) @ ustr '':'' @ digits2 (minute dt) @ ustr '':''
            @ digits2 (second dt)"
  let ?R = "(if off < 0 then ustr ''-'' else ustr ''+'')
            @ digits2 (\<bar>off\<bar> div 3600) @ ustr '':'' @ digits2 (\<bar>off\<bar> mod 3600 div 60)"
  have len: "length ?L = 19" by (simp add: digits2_def digits4_def ustr_def)
  have t: "iso_text dt off = ?L @ ?R" by (simp add: iso_text_def)
  have r: "matches ''+dd:dd'' ?R \<or> matches ''-dd:dd'' ?R"
    using matches_offset [OF assms(2,3)] by (cases "off < 0") (simp_all add: ustr_def)
  show ?thesis
    unfolding iso_seconds_with_offset_def t
    using take_drop_append_length [OF len, of ?R] matches_date_time [OF assms(1)] r by simp
qed

lemma iso_text_length: "length (iso_text dt off) = 25"
  by (simp add: iso_text_def digits2_def digits4_def ustr_def)

lemma time_result_Inr:
  assumes "time_result name t = Inr r" and "valid_fields t"
  shows "timezone r = name
         \<and> (\<exists>off d. utcoffset t = Inr off \<and> - 86400 < off \<and> off < 86400 \<and> dst t = Inr d
               \<and> is_dst r = (d \<noteq> 0)
               \<and> datetime r
                 = iso_text t off
                   @ (if \<bar>off\<bar> mod 60 \<noteq> 0 then ustr '':'' @ digits2 (\<bar>off\<bar> mod 60) else []))"
proof -
  from assms(1) obtain stamp d where i: "isoformat_seconds t = Inr stamp"
    and d: "dst t = Inr d"
    and r: "r = \<lparr>timezone = name, datetime = stamp, is_dst = (d \<noteq> 0)\<rparr>"
    by (auto simp: time_result_def split: sum.splits)
  from isoformat_seconds_text [OF assms(2) i] d show ?thesis by (auto simp: r)
qed

section \<open>The time-format error\<close>

lemma not_parser_25_61: "\<not> parser_hhmm zeros (ustr ''25:61'')"
  by (simp add: parser_hhmm_def hhmm_at_def hour_text_def minute_text_def ustr_def)

text \<open>
  C2, as the specification words it, fails: the time \<open>9:5\<close> written with fullwidth digits
  (U+FF19, colon, U+FF15) is not a strict \<open>HH:MM\<close> string, and \<open>convert_time\<close> converts it
  as 09:05.
\<close>

theorem fullwidth_time_is_converted:
  "\<not> strict_hhmm [65305, 58, 65301]
   \<and> convert_time example_env (ustr ''Asia/Kolkata'') [65305, 58, 65301] (ustr ''UTC'')
     = Inr \<lparr>source = \<lparr>timezone = ustr ''Asia/Kolkata'',
                       datetime = ustr ''2025-11-01T09:05:00+05:30'', is_dst = False\<rparr>,
            target = \<lparr>timezone = ustr ''UTC'',
                       datetime = ustr ''2025-11-01T03:35:00+00:00'', is_dst = False\<rparr>,
            time_difference = ustr ''-5.5h''\<rparr>"
  by (simp add: convert_fullwidth_9_5 strict_hhmm_def strict_field_def ascii_digit_def)

text \<open>
  C2, amended. With both zones known to the database, \<open>convert_time\<close> fails with the
  \<open>ValueError\<close> whose message is exactly
  \<open>Invalid time format. Expected HH:MM [24-hour format]\<close> for the strings that \<open>strptime\<close>
  does not take, and for no others: the parser's own message is replaced. Every strict
  \<open>HH:MM\<close> string is taken; a string that is taken without being strict has a decimal digit
  of a script other than ASCII in it. \<open>25:61\<close> is not taken.
\<close>

theorem time_format_error_iff_not_parsed:
  assumes "tzdb e source_tz = Inr zs" and "tzdb e target_tz = Inr zt"
  shows "(convert_time e source_tz time_str target_tz
            = Inl (ValueError (ustr ''Invalid time format. Expected HH:MM [24-hour format]'')))
         = (\<not> parser_hhmm (decimal_zeros e) time_str)
       \<and> (strict_hhmm time_str \<longrightarrow> parser_hhmm (decimal_zeros e) time_str)
       \<and> (parser_hhmm (decimal_zeros e) time_str \<and> \<not> strict_hhmm time_str \<longrightarrow>
            list_ex (\<lambda>c. decimal_digit (decimal_zeros e) c \<and> \<not> ascii_digit c) time_str)
       \<and> \<not> strict_hhmm (ustr ''25:61'')
       \<and> convert_time e source_tz (ustr ''25:61'') target_tz
         = Inl (ValueError (ustr ''Invalid time format. Expected HH:MM [24-hour format]''))"
proof -
  have iff: "(convert_time e source_tz t target_tz = Inl (ValueError time_format_msg))
             = (\<not> parser_hhmm (decimal_zeros e) t)" for t
  proof (cases "strptime_HM (decimal_zeros e) t")
    case None
    then have "convert_time e source_tz t target_tz = Inl (ValueError time_format_msg)"
      using assms by (simp add: convert_time_def source_and_target_time_def get_zoneinfo_def)
    moreover have "\<not> parser_hhmm (decimal_zeros e) t"
      using parser_strptime_HM [of "decimal_zeros e" t] None by auto
    ultimately show ?thesis by simp
  next
    case (Some p)
    have "convert_time e source_tz t target_tz \<noteq> Inl (ValueError time_format_msg)"
      using convert_time_parsed_error [OF assms Some] datetime_error_not_time_format by blast
    moreover have "parser_hhmm (decimal_zeros e) t" using strptime_HM_parser [OF Some] .
    ultimately show ?thesis by simp
  qed
  have n: "\<not> strict_hhmm (ustr ''25:61'')"
    using strict_parser [of "ustr ''25:61''" "[]"] not_parser_25_61 by blast
  show ?thesis
    using iff [of time_str] iff [of "ustr ''25:61''"] not_parser_25_61 [of "decimal_zeros e"] n
      strict_parser [of time_str "decimal_zeros e"]
      parser_not_strict [of "decimal_zeros e" time_str]
    by (simp add: time_format_msg_def)
qed

theorem time_format_error_iff_not_parsed_witness:
  "tzdb example_env (ustr ''Asia/Kolkata'') = Inr (fixed_zone 19800)
   \<and> tzdb example_env (ustr ''UTC'') = Inr (fixed_zone 0)
   \<and> \<not> parser_hhmm (decimal_zeros example_env) (ustr ''12:60'')
   \<and> convert_time example_env (ustr ''Asia/Kolkata'') (ustr ''12:60'') (ustr ''UTC'')
     = Inl (ValueError (ustr ''Invalid time format. Expected HH:MM [24-hour format]''))
   \<and> convert_time example_env (ustr ''Asia/Kolkata'') (ustr ''25:61'') (ustr ''UTC'')
     = Inl (ValueError (ustr ''Invalid time format. Expected HH:MM [24-hour format]''))
   \<and> strict_hhmm (ustr ''10:00'')
   \<and> parser_hhmm (decimal_zeros example_env) (ustr ''10:00'')
   \<and> convert_time example_env (ustr ''Asia/Kolkata'') (ustr ''10:00'') (ustr ''UTC'')
     \<noteq> Inl (ValueError (ustr ''Invalid time format. Expected HH:MM [24-hour format]''))
   \<and> parser_hhmm (decimal_zeros example_env) [65305, 58, 65301]
   \<and> \<not> strict_hhmm [65305, 58, 65301]
   \<and> list_ex (\<lambda>c. decimal_digit (decimal_zeros example_env) c \<and> \<not> ascii_digit c)
        [65305, 58, 65301]"
proof -
  note t = time_format_error_iff_not_parsed [OF tzdb_ex(2) tzdb_ex(1)]
  have a: "\<not> parser_hhmm (decimal_zeros example_env) (ustr ''12:60'')"
    by (simp add: parser_hhmm_def hhmm_at_def hour_text_def minute_text_def ustr_def
        decimal_digit_def ascii_digit_def example_env_def)
  have b: "strict_hhmm (ustr ''10:00'')"
    by (simp add: strict_hhmm_def strict_field_def ascii_digit_def ascii_value_def ustr_def)
  have c: "parser_hhmm (decimal_zeros example_env) [65305, 58, 65301]"
    by (simp add: parser_hhmm_def hhmm_at_def hour_text_def minute_text_def
        decimal_digit_def ascii_digit_def example_env_def)
  have d: "\<not> strict_hhmm [65305, 58, 65301]"
    by (simp add: strict_hhmm_def strict_field_def ascii_digit_def)
  from t [of "ustr ''12:60''"] t [of "ustr ''10:00''"] t [of "[65305, 58, 65301]"]
    tzdb_ex(1,2) a b c d
  show ?thesis by simp
qed

section \<open>The \<open>datetime\<close> field of a result\<close>

lemma time_result_text:
  assumes "time_result name t = Inr r" and "valid_fields t"
  shows "\<exists>off. utcoffset t = Inr off
           \<and> take 25 (datetime r) = iso_text t off
           \<and> drop 25 (datetime r) = offset_seconds_text off
           \<and> iso_seconds_with_offset (take 25 (datetime r))
           \<and> (off mod 60 = 0 \<longrightarrow> iso_seconds_with_offset (datetime r))"
proof -
  from time_result_Inr [OF assms] obtain off where off: "utcoffset t = Inr off"
    and r: "- 86400 < off" "off < 86400"
    and d: "datetime r = iso_text t off @ offset_seconds_text off"
    by (auto simp: offset_seconds_text_def)
  have tk: "take 25 (datetime r) = iso_text t off" "drop 25 (datetime r) = offset_seconds_text off"
    unfolding d using take_drop_append_length [OF iso_text_length] by simp_all
  have sh: "iso_seconds_with_offset (iso_text t off)" by (rule iso_text_shape [OF assms(2) r])
  have "\<bar>off\<bar> mod 60 = 0" if "off mod 60 = 0"
  proof -
    from that have "60 dvd off" by (simp add: dvd_eq_mod_eq_0)
    then have "60 dvd \<bar>off\<bar>" by simp
    then show ?thesis by (simp add: dvd_eq_mod_eq_0)
  qed
  then have "off mod 60 = 0 \<longrightarrow> datetime r = iso_text t off"
    by (simp add: d offset_seconds_text_def)
  with off tk sh show ?thesis by auto
qed

text \<open>
  C9, as the specification words it, fails for a zone whose offset has a seconds part:
  ISO 8601 writes an offset as hours and minutes, and the text then ends in \<open>-00:44:30\<close>.
\<close>

theorem offset_with_seconds_is_not_iso:
  "get_current_time monrovia_env (ustr ''Africa/Monrovia'')
   = Inr \<lparr>timezone = ustr ''Africa/Monrovia'',
          datetime = ustr ''1971-01-01T11:15:30-00:44:30'', is_dst = False\<rparr>
   \<and> \<not> iso_seconds_with_offset (ustr ''1971-01-01T11:15:30-00:44:30'')"
proof -
  have "\<not> iso_seconds_with_offset (ustr ''1971-01-01T11:15:30-00:44:30'')"
    by (simp add: iso_seconds_with_offset_def ustr_def)
  with get_current_time_monrovia show ?thesis by simp
qed

text \<open>
  C9, amended. The \<open>datetime\<close> field of every \<open>TimeResult\<close> that \<open>get_current_time\<close> or
  \<open>convert_time\<close> produces begins with 25 characters that are an ISO-8601 date-time of second
  precision with a UTC offset: the fields of the date-time it stands for (the current time
  in the zone; the source and the target time), without the microsecond, and the hours and
  minutes of the offset of that date-time. So it is never a naive string. Nothing follows
  when the offset is a whole number of minutes, and the field is then such an ISO-8601 string
  itself; otherwise a colon and the two digits of the offset's seconds follow.
\<close>

theorem datetime_field_carries_offset:
  "(get_current_time e timezone_name = Inr r \<longrightarrow>
      (\<exists>tz t off. get_zoneinfo e (timezone r) = Inr tz \<and> now e tz = Inr t
          \<and> utcoffset t = Inr off
          \<and> take 25 (datetime r) = iso_text t off
          \<and> drop 25 (datetime r) = offset_seconds_text off
          \<and> iso_seconds_with_offset (take 25 (datetime r))
          \<and> (off mod 60 = 0 \<longrightarrow> iso_seconds_with_offset (datetime r))))
   \<and> (convert_time e source_tz time_str target_tz = Inr c \<longrightarrow>
      (\<exists>st tt so tgo.
          source_and_target_time e source_tz time_str target_tz = Inr (st, tt)
          \<and> utcoffset st = Inr so \<and> utcoffset tt = Inr tgo
          \<and> take 25 (datetime (source c)) = iso_text st so
          \<and> drop 25 (datetime (source c)) = offset_seconds_text so
          \<and> take 25 (datetime (target c)) = iso_text tt tgo
          \<and> drop 25 (datetime (target c)) = offset_seconds_text tgo
          \<and> iso_seconds_with_offset (take 25 (datetime (source c)))
          \<and> iso_seconds_with_offset (take 25 (datetime (target c)))
          \<and> (so mod 60 = 0 \<longrightarrow> iso_seconds_with_offset (datetime (source c)))
          \<and> (tgo mod 60 = 0 \<longrightarrow> iso_seconds_with_offset (datetime (target c)))))"
proof (intro conjI impI)
  assume a: "get_current_time e timezone_name = Inr r"
  then obtain name tz nw where z: "get_zoneinfo e name = Inr tz" and n: "now e tz = Inr nw"
    and t: "time_result name nw = Inr r"
    by (auto simp: get_current_time_def split: sum.splits if_splits)
  from now_Inr [OF n] have v: "valid_fields nw" by simp
  from time_result_Inr [OF t v] have nm: "timezone r = name" by simp
  from time_result_text [OF t v] z n nm
  show "\<exists>tz t off. get_zoneinfo e (timezone r) = Inr tz \<and> now e tz = Inr t
          \<and> utcoffset t = Inr off
          \<and> take 25 (datetime r) = iso_text t off
          \<and> drop 25 (datetime r) = offset_seconds_text off
          \<and> iso_seconds_with_offset (take 25 (datetime r))
          \<and> (off mod 60 = 0 \<longrightarrow> iso_seconds_with_offset (datetime r))"
    by blast
next
  assume a: "convert_time e source_tz time_str target_tz = Inr c"
  then obtain st tt src tgt where
    s: "source_and_target_time e source_tz time_str target_tz = Inr (st, tt)"
    and rs: "time_result source_tz st = Inr src" and rt: "time_result target_tz tt = Inr tgt"
    and c: "source c = src" "target c = tgt"
    by (auto simp: convert_time_def Let_def split: sum.splits prod.splits)
  from source_and_target_time_valid [OF s] have v: "valid_fields st" "valid_fields tt"
    by simp_all
  from time_result_text [OF rs v(1)] time_result_text [OF rt v(2)] s c
  show "\<exists>st tt so tgo.
          source_and_target_time e source_tz time_str target_tz = Inr (st, tt)
          \<and> utcoffset st = Inr so \<and> utcoffset tt = Inr tgo
          \<and> take 25 (datetime (source c)) = iso_text st so
          \<and> drop 25 (datetime (source c)) = offset_seconds_text so
          \<and> take 25 (datetime (target c)) = iso_text tt tgo
          \<and> drop 25 (datetime (target c)) = offset_seconds_text tgo
          \<and> iso_seconds_with_offset (take 25 (datetime (source c)))
          \<and> iso_seconds_with_offset (take 25 (datetime (target c)))
          \<and> (so mod 60 = 0 \<longrightarrow> iso_seconds_with_offset (datetime (source c)))
          \<and> (tgo mod 60 = 0 \<longrightarrow> iso_seconds_with_offset (datetime (target c)))"
    by blast
qed

theorem datetime_field_carries_offset_witness:
  "get_current_time (example_env\<lparr>local_timezone := Some (ustr ''Asia/Kolkata'')\<rparr>)
     (ustr ''local'')
   = Inr \<lparr>timezone = ustr ''Asia/Kolkata'',
          datetime = ustr ''2025-11-01T18:04:56+05:30'', is_dst = False\<rparr>
   \<and> iso_seconds_with_offset (ustr ''2025-11-01T18:04:56+05:30'')
   \<and> convert_time example_env (ustr ''Asia/Kolkata'') (ustr ''10:00'') (ustr ''UTC'')
     = Inr \<lparr>source = \<lparr>timezone = ustr ''Asia/Kolkata'',
                       datetime = ustr ''2025-11-01T10:00:00+05:30'', is_dst = False\<rparr>,
            target = \<lparr>timezone = ustr ''UTC'',
                       datetime = ustr ''2025-11-01T04:30:00+00:00'', is_dst = False\<rparr>,
            time_difference = ustr ''-5.5h''\<rparr>
   \<and> iso_seconds_with_offset (ustr ''2025-11-01T10:00:00+05:30'')
   \<and> iso_seconds_with_offset (ustr ''2025-11-01T04:30:00+00:00'')
   \<and> get_current_time monrovia_env (ustr ''Africa/Monrovia'')
     = Inr \<lparr>timezone = ustr ''Africa/Monrovia'',
            datetime = ustr ''1971-01-01T11:15:30-00:44:30'', is_dst = False\<rparr>
   \<and> iso_seconds_with_offset (take 25 (ustr ''1971-01-01T11:15:30-00:44:30''))
   \<and> drop 25 (ustr ''1971-01-01T11:15:30-00:44:30'') = offset_seconds_text (- 2670)
   \<and> \<not> iso_seconds_with_offset (ustr ''2025-11-01T18:04:56'')"
proof -
  note t = datetime_field_carries_offset
  let ?e = "example_env\<lparr>local_timezone := Some (ustr ''Asia/Kolkata'')\<rparr>"
  have k: "get_zoneinfo ?e (ustr ''Asia/Kolkata'') = Inr (fixed_zone 19800)"
    using tzdb_ex(2) by (simp add: get_zoneinfo_def)
  have n: "now ?e (fixed_zone 19800) = now example_env (fixed_zone 19800)"
    by (simp add: now_def)
  have a: "iso_seconds_with_offset (ustr ''2025-11-01T18:04:56+05:30'')"
  proof -
    note f = t [where e = ?e and timezone_name = "ustr ''local''"
              and r = "\<lparr>timezone = ustr ''Asia/Kolkata'',
                         datetime = ustr ''2025-11-01T18:04:56+05:30'', is_dst = False\<rparr>",
              THEN conjunct1, THEN mp, OF gct, simplified]
    from f obtain tz tm off where "get_zoneinfo ?e (ustr ''Asia/Kolkata'') = Inr tz"
      and "now ?e tz = Inr tm" and "utcoffset tm = Inr off"
      and i: "off mod 60 = 0 \<longrightarrow> iso_seconds_with_offset (ustr ''2025-11-01T18:04:56+05:30'')"
      by blast
    then have "off = 19800"
      by (auto simp: k n now_ex utcoffset_def check_offset_def fixed_zone_sel)
    with i show ?thesis by simp
  qed
  have b: "iso_seconds_with_offset (ustr ''2025-11-01T10:00:00+05:30'')
           \<and> iso_seconds_with_offset (ustr ''2025-11-01T04:30:00+00:00'')"
  proof -
    note f = t [where e = example_env and source_tz = "ustr ''Asia/Kolkata''"
              and time_str = "ustr ''10:00''" and target_tz = "ustr ''UTC''"
              and c = "\<lparr>source = \<lparr>timezone = ustr ''Asia/Kolkata'',
                       datetime = ustr ''2025-11-01T10:00:00+05:30'', is_dst = False\<rparr>,
                     target = \<lparr>timezone = ustr ''UTC'',
                       datetime = ustr ''2025-11-01T04:30:00+00:00'', is_dst = False\<rparr>,
                     time_difference = ustr ''-5.5h''\<rparr>",
              THEN conjunct2, THEN mp, OF convert_10_00, simplified]
    from f obtain st tt so tgo where
      "source_and_target_time example_env (ustr ''Asia/Kolkata'') (ustr ''10:00'') (ustr ''UTC'')
       = Inr (st, tt)"
      and "utcoffset st = Inr so" and "utcoffset tt = Inr tgo"
      and i: "so mod 60 = 0 \<longrightarrow> iso_seconds_with_offset (ustr ''2025-11-01T10:00:00+05:30'')"
             "tgo mod 60 = 0 \<longrightarrow> iso_seconds_with_offset (ustr ''2025-11-01T04:30:00+00:00'')"
      by blast
    then have "so = 19800" "tgo = 0"
      by (auto simp: source_and_target_10_00 utcoffset_def check_offset_def fixed_zone_sel)
    with i show ?thesis by simp
  qed
  have c: "iso_seconds_with_offset (take 25 (ustr ''1971-01-01T11:15:30-00:44:30''))"
    using t [where e = monrovia_env and timezone_name = "ustr ''Africa/Monrovia''"
              and r = "\<lparr>timezone = ustr ''Africa/Monrovia'',
                         datetime = ustr ''1971-01-01T11:15:30-00:44:30'', is_dst = False\<rparr>",
              THEN conjunct1, THEN mp, OF get_current_time_monrovia, simplified]
    by blast
  have d: "drop 25 (ustr ''1971-01-01T11:15:30-00:44:30'') = offset_seconds_text (- 2670)"
    by (simp add: offset_seconds_text_def digits2_def ustr_def)
  have e: "\<not> iso_seconds_with_offset (ustr ''2025-11-01T18:04:56'')"
    by (simp add: iso_seconds_with_offset_def ustr_def)
  from a b c d e gct convert_10_00 get_current_time_monrovia show ?thesis by simp
qed

section \<open>The source and the target date-time\<close>

text \<open>
  C4. In every successful call of \<open>convert_time\<close> the source date-time has the calendar
  date that the source zone shows at the instant of the clock, the hour and minute parsed
  from \<open>time_str\<close>, second and microsecond 0, and the source zone. The target date-time is
  the source date-time itself when both names are the same key; otherwise it is what the
  target zone shows at the instant of the source date-time, and it stands for that same
  instant whenever the target zone reports for it the offset that it applied. The two
  \<open>datetime\<close> fields of the result are the texts of these two date-times.
\<close>

theorem source_time_is_today_at_parsed_time:
  assumes "convert_time e source_tz time_str target_tz = Inr c"
  shows "\<exists>zs zt st tt so tgo.
      tzdb e source_tz = Inr zs \<and> tzdb e target_tz = Inr zt
    \<and> source_and_target_time e source_tz time_str target_tz = Inr (st, tt)
    \<and> (year st, month st, day st) = date_at (wall_time_at zs (utcnow e))
    \<and> strptime_HM (decimal_zeros e) time_str = Some (hour st, minute st)
    \<and> second st = 0 \<and> microsecond st = 0 \<and> \<not> fold_attr st \<and> tzinfo st = zs
    \<and> (source_tz = target_tz \<longrightarrow> tt = st)
    \<and> (source_tz \<noteq> target_tz \<longrightarrow>
          to_seconds tt = wall_time_at zt (utc_instant st)
        \<and> (year tt, month tt, day tt) = date_at (wall_time_at zt (utc_instant st))
        \<and> (hour tt, minute tt, second tt) = time_of_day_at (wall_time_at zt (utc_instant st))
        \<and> microsecond tt = 0 \<and> fold_attr tt = fold_utc zt (utc_instant st) \<and> tzinfo tt = zt)
    \<and> (utcoff_wall zt (to_seconds tt) (fold_attr tt) = utcoff_utc zt (utc_instant st) \<longrightarrow>
          utc_instant tt = utc_instant st)
    \<and> utcoffset st = Inr so \<and> utcoffset tt = Inr tgo
    \<and> take 25 (datetime (source c)) = iso_text st so
    \<and> take 25 (datetime (target c)) = iso_text tt tgo
    \<and> timezone (source c) = source_tz \<and> timezone (target c) = target_tz"
proof -
  from assms obtain st tt src tgt where
    s: "source_and_target_time e source_tz time_str target_tz = Inr (st, tt)"
    and rs: "time_result source_tz st = Inr src" and rt: "time_result target_tz tt = Inr tgt"
    and c: "source c = src" "target c = tgt"
    by (auto simp: convert_time_def Let_def split: sum.splits prod.splits)
  from source_and_target_time_Inr [OF s] obtain zs zt p nw where
    zs: "tzdb e source_tz = Inr zs" and zt: "tzdb e target_tz = Inr zt"
    and p: "strptime_HM (decimal_zeros e) time_str = Some p" and nw: "now e zs = Inr nw"
    and st: "st = build_source_time nw p zs"
    and tt: "astimezone st (source_tz = target_tz) zt = Inr tt"
    by blast
  from source_and_target_time_valid [OF s] have v: "valid_fields st" "valid_fields tt"
    by simp_all
  from time_result_text [OF rs v(1)] obtain so where so: "utcoffset st = Inr so"
    and ts: "take 25 (datetime src) = iso_text st so" by blast
  from time_result_text [OF rt v(2)] obtain tgo where tgo: "utcoffset tt = Inr tgo"
    and tg: "take 25 (datetime tgt) = iso_text tt tgo" by blast
  have nm: "timezone src = source_tz" "timezone tgt = target_tz"
    using time_result_Inr [OF rs v(1)] time_result_Inr [OF rt v(2)] by simp_all
  have d: "(year st, month st, day st) = date_at (wall_time_at zs (utcnow e))"
    using now_fields [OF nw] by (simp add: st build_source_time_def)
  have f: "strptime_HM (decimal_zeros e) time_str = Some (hour st, minute st)"
    "second st = 0" "microsecond st = 0" "\<not> fold_attr st" "tzinfo st = zs"
    using p by (simp_all add: st build_source_time_def)
  have same: "source_tz = target_tz \<longrightarrow> tt = st"
    using astimezone_Inr [OF tt] by simp
  have other: "to_seconds tt = wall_time_at zt (utc_instant st)
        \<and> (year tt, month tt, day tt) = date_at (wall_time_at zt (utc_instant st))
        \<and> (hour tt, minute tt, second tt) = time_of_day_at (wall_time_at zt (utc_instant st))
        \<and> microsecond tt = 0 \<and> fold_attr tt = fold_utc zt (utc_instant st) \<and> tzinfo tt = zt"
    if "source_tz \<noteq> target_tz"
    using astimezone_fields [of st zt tt] tt that f(3) by simp
  have inst: "utc_instant tt = utc_instant st"
    if "utcoff_wall zt (to_seconds tt) (fold_attr tt) = utcoff_utc zt (utc_instant st)"
  proof (cases "source_tz = target_tz")
    case True
    with same show ?thesis by simp
  next
    case False
    from other [OF False] that show ?thesis
      by (simp add: utc_instant_def [of tt] wall_time_at_def)
  qed
  from zs zt s d f same other inst so tgo ts tg nm c show ?thesis by blast
qed

theorem source_time_is_today_at_parsed_time_witness:
  "convert_time example_env (ustr ''Asia/Kolkata'') (ustr ''10:00'') (ustr ''UTC'')
   = Inr \<lparr>source = \<lparr>timezone = ustr ''Asia/Kolkata'',
                     datetime = ustr ''2025-11-01T10:00:00+05:30'', is_dst = False\<rparr>,
          target = \<lparr>timezone = ustr ''UTC'',
                     datetime = ustr ''2025-11-01T04:30:00+00:00'', is_dst = False\<rparr>,
          time_difference = ustr ''-5.5h''\<rparr>
   \<and> source_and_target_time example_env (ustr ''Asia/Kolkata'') (ustr ''10:00'') (ustr ''UTC'')
     = Inr (\<lparr>year = 2025, month = 11, day = 1, hour = 10, minute = 0, second = 0,
             microsecond = 0, fold_attr = False, tzinfo = fixed_zone 19800\<rparr>,
            \<lparr>year = 2025, month = 11, day = 1, hour = 4, minute = 30, second = 0,
             microsecond = 0, fold_attr = False, tzinfo = fixed_zone 0\<rparr>)
   \<and> date_at (wall_time_at (fixed_zone 19800) (utcnow example_env)) = (2025, 11, 1)
   \<and> strptime_HM (decimal_zeros example_env) (ustr ''10:00'') = Some (10, 0)
   \<and> date_at (wall_time_at (fixed_zone 0)
        (utc_instant \<lparr>year = 2025, month = 11, day = 1, hour = 10, minute = 0, second = 0,
             microsecond = 0, fold_attr = False, tzinfo = fixed_zone 19800\<rparr>)) = (2025, 11, 1)
   \<and> time_of_day_at (wall_time_at (fixed_zone 0)
        (utc_instant \<lparr>year = 2025, month = 11, day = 1, hour = 10, minute = 0, second = 0,
             microsecond = 0, fold_attr = False, tzinfo = fixed_zone 19800\<rparr>)) = (4, 30, 0)
   \<and> utc_instant \<lparr>year = 2025, month = 11, day = 1, hour = 4, minute = 30, second = 0,
             microsecond = 0, fold_attr = False, tzinfo = fixed_zone 0\<rparr>
     = utc_instant \<lparr>year = 2025, month = 11, day = 1, hour = 10, minute = 0, second = 0,
             microsecond = 0, fold_attr = False, tzinfo = fixed_zone 19800\<rparr>"
proof -
  let ?s = "\<lparr>year = 2025, month = 11, day = 1, hour = 10, minute = 0, second = 0,
             microsecond = 0, fold_attr = False, tzinfo = fixed_zone 19800\<rparr>"
  let ?t = "\<lparr>year = 2025, month = 11, day = 1, hour = 4, minute = 30, second = 0,
             microsecond = 0, fold_attr = False, tzinfo = fixed_zone 0\<rparr>"
  from source_time_is_today_at_parsed_time [OF convert_10_00]
  obtain zs zt st tt where
    z: "tzdb example_env (ustr ''Asia/Kolkata'') = Inr zs" "tzdb example_env (ustr ''UTC'') = Inr zt"
    and s: "source_and_target_time example_env (ustr ''Asia/Kolkata'') (ustr ''10:00'')
              (ustr ''UTC'') = Inr (st, tt)"
    and d: "(year st, month st, day st) = date_at (wall_time_at zs (utcnow example_env))"
    and p: "strptime_HM (decimal_zeros example_env) (ustr ''10:00'') = Some (hour st, minute st)"
    and o: "ustr ''Asia/Kolkata'' \<noteq> ustr ''UTC'' \<longrightarrow>
              (year tt, month tt, day tt) = date_at (wall_time_at zt (utc_instant st))
            \<and> (hour tt, minute tt, second tt) = time_of_day_at (wall_time_at zt (utc_instant st))"
    and i: "utcoff_wall zt (to_seconds tt) (fold_attr tt) = utcoff_utc zt (utc_instant st) \<longrightarrow>
              utc_instant tt = utc_instant st"
    by blast
  from z have zz: "zs = fixed_zone 19800" "zt = fixed_zone 0" by (simp_all add: tzdb_ex)
  from s have ss: "st = ?s" "tt = ?t" by (simp_all add: source_and_target_10_00)
  from d p o i kolkata_ne_utc convert_10_00 source_and_target_10_00
  show ?thesis unfolding zz ss by (simp add: fixed_zone_sel)
qed

section \<open>Order of the checks in \<open>convert_time\<close>\<close>

text \<open>
  C10. \<open>convert_time\<close> looks both zones up before it parses \<open>time_str\<close>: an unknown source
  zone, or an unknown target zone after a known source zone, gives the invalid-timezone
  error whatever \<open>time_str\<close> is; and when the invalid-time-format error is raised, both
  zones were known.
\<close>

theorem timezone_errors_precede_time_format:
  "(tzdb e source_tz = Inl msg \<longrightarrow>
      convert_time e source_tz time_str target_tz = Inl (ValueError (ustr ''Invalid timezone: '' @ msg)))
   \<and> (tzdb e source_tz = Inr z \<and> tzdb e target_tz = Inl msg \<longrightarrow>
      convert_time e source_tz time_str target_tz = Inl (ValueError (ustr ''Invalid timezone: '' @ msg)))
   \<and> (convert_time e source_tz time_str target_tz = Inl (ValueError time_format_msg) \<longrightarrow>
        (\<exists>zs zt. tzdb e source_tz = Inr zs \<and> tzdb e target_tz = Inr zt))"
proof (intro conjI impI)
  assume "tzdb e source_tz = Inl msg"
  then show "convert_time e source_tz time_str target_tz
             = Inl (ValueError (ustr ''Invalid timezone: '' @ msg))"
    by (simp add: convert_time_def source_and_target_time_def get_zoneinfo_def)
next
  assume "tzdb e source_tz = Inr z \<and> tzdb e target_tz = Inl msg"
  then show "convert_time e source_tz time_str target_tz
             = Inl (ValueError (ustr ''Invalid timezone: '' @ msg))"
    by (simp add: convert_time_def source_and_target_time_def get_zoneinfo_def)
next
  assume a: "convert_time e source_tz time_str target_tz = Inl (ValueError time_format_msg)"
  show "\<exists>zs zt. tzdb e source_tz = Inr zs \<and> tzdb e target_tz = Inr zt"
  proof (cases "tzdb e source_tz")
    case (Inl m)
    with a show ?thesis using invalid_timezone_not_time_format [of m]
      by (simp add: convert_time_def source_and_target_time_def get_zoneinfo_def)
  next
    case src: (Inr zs)
    show ?thesis
    proof (cases "tzdb e target_tz")
      case (Inl m)
      with a src show ?thesis using invalid_timezone_not_time_format [of m]
        by (simp add: convert_time_def source_and_target_time_def get_zoneinfo_def)
    next
      case (Inr zt)
      with src show ?thesis by simp
    qed
  qed
qed

theorem timezone_errors_precede_time_format_witness:
  "convert_time example_env (ustr ''bogus/zone'') (ustr ''25:61'') (ustr ''UTC'')
     = Inl (ValueError (ustr ''Invalid timezone: '' @ 39
                        # ustr ''No time zone found with key bogus/zone'' @ [39]))
   \<and> convert_time example_env (ustr ''UTC'') (ustr ''25:61'') (ustr ''bogus/zone'')
     = Inl (ValueError (ustr ''Invalid timezone: '' @ 39
                        # ustr ''No time zone found with key bogus/zone'' @ [39]))
   \<and> convert_time example_env (ustr ''UTC'') (ustr ''25:61'') (ustr ''Asia/Kolkata'')
     = Inl (ValueError time_format_msg)
   \<and> (\<exists>zs zt. tzdb example_env (ustr ''UTC'') = Inr zs
               \<and> tzdb example_env (ustr ''Asia/Kolkata'') = Inr zt)"
proof -
  have b: "tzdb example_env (ustr ''bogus/zone'')
           = Inl (39 # ustr ''No time zone found with key bogus/zone'' @ [39])"
    by (simp add: example_env_def example_tzdb_def ustr_def)
  have u: "tzdb example_env (ustr ''UTC'') = Inr (fixed_zone 0)"
    by (simp add: example_env_def example_tzdb_def ustr_def)
  have f: "convert_time example_env (ustr ''UTC'') (ustr ''25:61'') (ustr ''Asia/Kolkata'')
           = Inl (ValueError time_format_msg)"
    by (simp add: convert_time_def source_and_target_time_def get_zoneinfo_def tzdb_ex
        strptime_25_61)
  note t = timezone_errors_precede_time_format
  from t [where e = example_env and source_tz = "ustr ''bogus/zone''"
            and time_str = "ustr ''25:61''" and target_tz = "ustr ''UTC''"
            and msg = "39 # ustr ''No time zone found with key bogus/zone'' @ [39]"]
       t [where e = example_env and source_tz = "ustr ''UTC''"
            and time_str = "ustr ''25:61''" and target_tz = "ustr ''bogus/zone''"
            and z = "fixed_zone 0"
            and msg = "39 # ustr ''No time zone found with key bogus/zone'' @ [39]"]
       t [where e = example_env and source_tz = "ustr ''UTC''"
            and time_str = "ustr ''25:61''" and target_tz = "ustr ''Asia/Kolkata''"]
       b u f
  show ?thesis by simp
qed

section \<open>The alias \<open>local\<close>\<close>

lemma get_zoneinfo_local_cfg:
  "get_zoneinfo (e\<lparr>local_timezone := ov, local_tzinfo := ti\<rparr>) name = get_zoneinfo e name"
  by (simp add: get_zoneinfo_def)

lemma now_local_cfg: "now (e\<lparr>local_timezone := ov, local_tzinfo := ti\<rparr>) tz = now e tz"
  by (simp add: now_def)

lemma source_and_target_time_local_cfg:
  "source_and_target_time (e\<lparr>local_timezone := ov, local_tzinfo := ti\<rparr>) a s b
   = source_and_target_time e a s b"
  by (simp add: source_and_target_time_def get_zoneinfo_local_cfg now_local_cfg
      split: sum.splits option.splits)

lemma get_local_tz_tzdb: "get_local_tz (e\<lparr>tzdb := db\<rparr>) ov = get_local_tz e ov"
  by (simp add: get_local_tz_def split: option.splits)

text \<open>
  C6. \<open>convert_time\<close> hands \<open>source_tz\<close> and \<open>target_tz\<close> to the database as they are: when
  the database has no zone called \<open>local\<close>, that name fails as an invalid timezone in either
  position; the result of \<open>convert_time\<close> depends neither on the configured override nor on
  the system's local zone. Only \<open>get_current_time\<close> replaces \<open>local\<close>: with an override \<open>v\<close>
  configured it answers as for \<open>v\<close>.
\<close>

theorem convert_time_has_no_local_alias:
  "(tzdb e (ustr ''local'') = Inl msg \<longrightarrow>
      convert_time e (ustr ''local'') time_str target_tz
      = Inl (ValueError (ustr ''Invalid timezone: '' @ msg)))
   \<and> (tzdb e source_tz = Inr z \<and> tzdb e (ustr ''local'') = Inl msg \<longrightarrow>
      convert_time e source_tz time_str (ustr ''local'')
      = Inl (ValueError (ustr ''Invalid timezone: '' @ msg)))
   \<and> convert_time (e\<lparr>local_timezone := ov, local_tzinfo := ti\<rparr>) source_tz time_str target_tz
       = convert_time e source_tz time_str target_tz
   \<and> (local_timezone e = Some v \<and> v \<noteq> [] \<and> v \<noteq> ustr ''local'' \<longrightarrow>
       get_current_time e (ustr ''local'') = get_current_time e v)"
proof (intro conjI impI)
  assume "tzdb e (ustr ''local'') = Inl msg"
  then show "convert_time e (ustr ''local'') time_str target_tz
             = Inl (ValueError (ustr ''Invalid timezone: '' @ msg))"
    by (simp add: convert_time_def source_and_target_time_def get_zoneinfo_def)
next
  assume "tzdb e source_tz = Inr z \<and> tzdb e (ustr ''local'') = Inl msg"
  then show "convert_time e source_tz time_str (ustr ''local'')
             = Inl (ValueError (ustr ''Invalid timezone: '' @ msg))"
    by (simp add: convert_time_def source_and_target_time_def get_zoneinfo_def)
next
  show "convert_time (e\<lparr>local_timezone := ov, local_tzinfo := ti\<rparr>) source_tz time_str target_tz
        = convert_time e source_tz time_str target_tz"
    by (simp add: convert_time_def source_and_target_time_local_cfg)
next
  assume "local_timezone e = Some v \<and> v \<noteq> [] \<and> v \<noteq> ustr ''local''"
  then show "get_current_time e (ustr ''local'') = get_current_time e v"
    by (simp add: get_current_time_def get_local_tz_def)
qed

theorem convert_time_has_no_local_alias_witness:
  "convert_time example_env (ustr ''local'') (ustr ''10:00'') (ustr ''UTC'')
     = Inl (ValueError (ustr ''Invalid timezone: '' @ 39
                        # ustr ''No time zone found with key local'' @ [39]))
   \<and> convert_time example_env (ustr ''UTC'') (ustr ''10:00'') (ustr ''local'')
     = Inl (ValueError (ustr ''Invalid timezone: '' @ 39
                        # ustr ''No time zone found with key local'' @ [39]))
   \<and> get_current_time (example_env\<lparr>local_timezone := Some (ustr ''Asia/Kolkata'')\<rparr>)
        (ustr ''local'')
     = get_current_time (example_env\<lparr>local_timezone := Some (ustr ''Asia/Kolkata'')\<rparr>)
        (ustr ''Asia/Kolkata'')
   \<and> get_current_time (example_env\<lparr>local_timezone := Some (ustr ''Asia/Kolkata'')\<rparr>)
        (ustr ''local'')
     = Inr \<lparr>timezone = ustr ''Asia/Kolkata'', datetime = ustr ''2025-11-01T18:04:56+05:30'',
            is_dst = False\<rparr>"
proof -
  have l: "tzdb example_env (ustr ''local'')
           = Inl (39 # ustr ''No time zone found with key local'' @ [39])"
    by (simp add: example_env_def example_tzdb_def ustr_def)
  have u: "tzdb example_env (ustr ''UTC'') = Inr (fixed_zone 0)"
    by (simp add: example_env_def example_tzdb_def ustr_def)
  have o: "local_timezone (example_env\<lparr>local_timezone := Some (ustr ''Asia/Kolkata'')\<rparr>)
             = Some (ustr ''Asia/Kolkata'')
           \<and> ustr ''Asia/Kolkata'' \<noteq> [] \<and> ustr ''Asia/Kolkata'' \<noteq> ustr ''local''"
    by (simp add: ustr_def)
  have v: "get_current_time (example_env\<lparr>local_timezone := Some (ustr ''Asia/Kolkata'')\<rparr>)
             (ustr ''local'')
           = Inr \<lparr>timezone = ustr ''Asia/Kolkata'',
                  datetime = ustr ''2025-11-01T18:04:56+05:30'', is_dst = False\<rparr>"
    by (rule gct)
  note t = convert_time_has_no_local_alias
  from t [where e = example_env and time_str = "ustr ''10:00''" and target_tz = "ustr ''UTC''"
            and source_tz = "ustr ''UTC''" and z = "fixed_zone 0"
            and msg = "39 # ustr ''No time zone found with key local'' @ [39]"]
       t [where e = "example_env\<lparr>local_timezone := Some (ustr ''Asia/Kolkata'')\<rparr>"
            and v = "ustr ''Asia/Kolkata''"]
       l u o v
  show ?thesis by simp
qed

section \<open>Detecting the local zone\<close>

text \<open>
  C7. \<open>get_local_tz\<close>: a non-empty override is returned as it is, and the timezone database
  plays no part in the answer. Without one (absent or empty), the label of the system's local
  zone decides: the CJK label of China Standard Time gives \<open>Asia/Shanghai\<close>, any other label
  is returned itself, and no label at all is an error. \<open>get_current_time\<close> called with
  \<open>local\<close> continues with the name so found.
\<close>

theorem get_local_tz_cases:
  "(ov = Some v \<and> v \<noteq> [] \<longrightarrow> get_local_tz e ov = Inr v)
   \<and> (ov = None \<or> ov = Some [] \<longrightarrow>
        (local_tzinfo e = Some china_standard_time_label \<longrightarrow>
           get_local_tz e ov = Inr (ustr ''Asia/Shanghai''))
      \<and> (local_tzinfo e = Some name \<and> name \<noteq> china_standard_time_label \<longrightarrow>
           get_local_tz e ov = Inr name)
      \<and> (local_tzinfo e = None \<longrightarrow>
           get_local_tz e ov
           = Inl (ValueError (ustr ''Could not determine local timezone - tzinfo is {tzinfo}''))))
   \<and> get_local_tz (e\<lparr>tzdb := db\<rparr>) ov = get_local_tz e ov
   \<and> get_current_time e (ustr ''local'')
       = (case get_local_tz e (local_timezone e) of
            Inl err \<Rightarrow> Inl err
          | Inr name \<Rightarrow>
              (case get_zoneinfo e name of
                 Inl err \<Rightarrow> Inl err
               | Inr tz \<Rightarrow>
                   (case now e tz of
                      Inl err \<Rightarrow> Inl err
                    | Inr current_time \<Rightarrow> time_result name current_time)))"
proof (intro conjI impI)
  assume "ov = Some v \<and> v \<noteq> []"
  then show "get_local_tz e ov = Inr v" by (simp add: get_local_tz_def)
next
  assume "ov = None \<or> ov = Some []" and "local_tzinfo e = Some china_standard_time_label"
  then show "get_local_tz e ov = Inr (ustr ''Asia/Shanghai'')"
    by (auto simp: get_local_tz_def str_of_tzinfo_def)
next
  assume "ov = None \<or> ov = Some []"
    and "local_tzinfo e = Some name \<and> name \<noteq> china_standard_time_label"
  then show "get_local_tz e ov = Inr name"
    by (auto simp: get_local_tz_def str_of_tzinfo_def)
next
  assume "ov = None \<or> ov = Some []" and "local_tzinfo e = None"
  then show "get_local_tz e ov
             = Inl (ValueError (ustr ''Could not determine local timezone - tzinfo is {tzinfo}''))"
    by (auto simp: get_local_tz_def str_of_tzinfo_def china_standard_time_label_def ustr_def)
next
  show "get_local_tz (e\<lparr>tzdb := db\<rparr>) ov = get_local_tz e ov" by (rule get_local_tz_tzdb)
next
  show "get_current_time e (ustr ''local'')
       = (case get_local_tz e (local_timezone e) of
            Inl err \<Rightarrow> Inl err
          | Inr name \<Rightarrow>
              (case get_zoneinfo e name of
                 Inl err \<Rightarrow> Inl err
               | Inr tz \<Rightarrow>
                   (case now e tz of
                      Inl err \<Rightarrow> Inl err
                    | Inr current_time \<Rightarrow> time_result name current_time)))"
    by (simp add: get_current_time_def)
qed

theorem get_local_tz_cases_witness:
  "get_local_tz example_env (Some (ustr ''Not/AZone'')) = Inr (ustr ''Not/AZone'')
   \<and> get_local_tz (example_env\<lparr>local_tzinfo := Some china_standard_time_label\<rparr>) None
     = Inr (ustr ''Asia/Shanghai'')
   \<and> get_local_tz (example_env\<lparr>local_tzinfo := Some china_standard_time_label\<rparr>) (Some [])
     = Inr (ustr ''Asia/Shanghai'')
   \<and> get_local_tz example_env None = Inr (ustr ''UTC'')
   \<and> get_local_tz (example_env\<lparr>local_tzinfo := None\<rparr>) None
     = Inl (ValueError (ustr ''Could not determine local timezone - tzinfo is {tzinfo}''))"
proof -
  note t = get_local_tz_cases
  have n: "ustr ''Not/AZone'' \<noteq> []" "ustr ''UTC'' \<noteq> china_standard_time_label"
    by (simp_all add: ustr_def china_standard_time_label_def)
  from t [where e = example_env and ov = "Some (ustr ''Not/AZone'')" and v = "ustr ''Not/AZone''"]
       t [where e = "example_env\<lparr>local_tzinfo := Some china_standard_time_label\<rparr>"
            and ov = None]
       t [where e = "example_env\<lparr>local_tzinfo := Some china_standard_time_label\<rparr>"
            and ov = "Some []"]
       t [where e = example_env and ov = None and name = "ustr ''UTC''"]
       t [where e = "example_env\<lparr>local_tzinfo := None\<rparr>" and ov = None]
       n
  show ?thesis by (simp add: example_env_def)
qed

end
